theory Spec2Isabelle
  imports Main
begin

section \<open>Strings of the Python runtime\<close>

text \<open>
  A Python \<open>str\<close> is modelled as a \<open>string\<close> holding the UTF-8 encoding of its text, so an
  ASCII character is one \<open>char\<close> and any other code point is the two to four bytes of its
  encoding. All separators the program splits on (\<open>\n\<close>, space, \<open>:\<close>, \<open>?\<close>, \<open>&\<close>, \<open>=\<close>, \<open>;\<close>)
  and all substrings it searches for are ASCII, and an ASCII byte never occurs inside a
  multi-byte sequence, so splitting and searching bytes is splitting and searching text.
  Limits of the interpreter (recursion depth, the digit limit of integer conversion) are
  not part of the model.
\<close>

definition nl :: char where
  "nl = CHR 0x0A"

text \<open>\<open>str.isspace\<close> on ASCII: tab, line feed, vertical tab, form feed, carriage return,
  the four separators \<open>0x1C\<close> to \<open>0x1F\<close>, and space.\<close>

definition ascii_space :: "char \<Rightarrow> bool" where
  "ascii_space c = (c \<in> set [CHR 0x09, CHR 0x0A, CHR 0x0B, CHR 0x0C, CHR 0x0D,
                               CHR 0x1C, CHR 0x1D, CHR 0x1E, CHR 0x1F, CHR 0x20])"

text \<open>The other white space of Unicode, as UTF-8: U+0085, U+00A0, U+1680, U+2000 to U+200A,
  U+2028, U+2029, U+202F, U+205F, U+3000.\<close>

definition wide_spaces :: "string list" where
  "wide_spaces =
    [[CHR 0xC2, CHR 0x85], [CHR 0xC2, CHR 0xA0], [CHR 0xE1, CHR 0x9A, CHR 0x80],
     [CHR 0xE2, CHR 0x80, CHR 0x80], [CHR 0xE2, CHR 0x80, CHR 0x81],
     [CHR 0xE2, CHR 0x80, CHR 0x82], [CHR 0xE2, CHR 0x80, CHR 0x83],
     [CHR 0xE2, CHR 0x80, CHR 0x84], [CHR 0xE2, CHR 0x80, CHR 0x85],
     [CHR 0xE2, CHR 0x80, CHR 0x86], [CHR 0xE2, CHR 0x80, CHR 0x87],
     [CHR 0xE2, CHR 0x80, CHR 0x88], [CHR 0xE2, CHR 0x80, CHR 0x89],
     [CHR 0xE2, CHR 0x80, CHR 0x8A], [CHR 0xE2, CHR 0x80, CHR 0xA8],
     [CHR 0xE2, CHR 0x80, CHR 0xA9], [CHR 0xE2, CHR 0x80, CHR 0xAF],
     [CHR 0xE2, CHR 0x81, CHR 0x9F], [CHR 0xE3, CHR 0x80, CHR 0x80]]"

definition starts_with :: "string \<Rightarrow> string \<Rightarrow> bool" where
  "starts_with p s = (take (length p) s = p)"

text \<open>Number of bytes of the white-space character at the head of \<open>s\<close>, with the given set
  of one-byte spaces; 0 when \<open>s\<close> does not start with white space.\<close>

definition space_width :: "(char \<Rightarrow> bool) \<Rightarrow> string \<Rightarrow> nat" where
  "space_width narrow s =
     (case s of [] \<Rightarrow> 0
      | c # _ \<Rightarrow> if narrow c then 1
                 else (case filter (\<lambda>w. starts_with w s) wide_spaces of
                         [] \<Rightarrow> 0 | w # _ \<Rightarrow> length w))"

function lstrip_by :: "(char \<Rightarrow> bool) \<Rightarrow> string \<Rightarrow> string" where
  "lstrip_by narrow s =
     (if space_width narrow s = 0 then s else lstrip_by narrow (drop (space_width narrow s) s))"
  by pat_completeness auto
termination
proof (relation "measure (\<lambda>(narrow, s). length s)")
  show "wf (measure (\<lambda>(narrow, s). length s))" by simp
next
  fix narrow :: "char \<Rightarrow> bool" and s :: string
  assume "space_width narrow s \<noteq> 0"
  then have "s \<noteq> []" by (auto simp: space_width_def)
  with \<open>space_width narrow s \<noteq> 0\<close>
  show "((narrow, drop (space_width narrow s) s), (narrow, s)) \<in> measure (\<lambda>(narrow, s). length s)"
    by simp
qed

declare lstrip_by.simps [simp del]

text \<open>The same from the right: trailing white space is leading white space of the reversed
  string, with each multi-byte sequence reversed.\<close>

definition space_width_rev :: "(char \<Rightarrow> bool) \<Rightarrow> string \<Rightarrow> nat" where
  "space_width_rev narrow s =
     (case s of [] \<Rightarrow> 0
      | c # _ \<Rightarrow> if narrow c then 1
                 else (case filter (\<lambda>w. starts_with (rev w) s) wide_spaces of
                         [] \<Rightarrow> 0 | w # _ \<Rightarrow> length w))"

function rstrip_rev :: "(char \<Rightarrow> bool) \<Rightarrow> string \<Rightarrow> string" where
  "rstrip_rev narrow s =
     (if space_width_rev narrow s = 0 then s
      else rstrip_rev narrow (drop (space_width_rev narrow s) s))"
  by pat_completeness auto
termination
proof (relation "measure (\<lambda>(narrow, s). length s)")
  show "wf (measure (\<lambda>(narrow, s). length s))" by simp
next
  fix narrow :: "char \<Rightarrow> bool" and s :: string
  assume "space_width_rev narrow s \<noteq> 0"
  then have "s \<noteq> []" by (auto simp: space_width_rev_def)
  with \<open>space_width_rev narrow s \<noteq> 0\<close>
  show "((narrow, drop (space_width_rev narrow s) s), (narrow, s))
          \<in> measure (\<lambda>(narrow, s). length s)"
    by simp
qed

declare rstrip_rev.simps [simp del]

definition strip_by :: "(char \<Rightarrow> bool) \<Rightarrow> string \<Rightarrow> string" where
  "strip_by narrow s = rev (rstrip_rev narrow (rev (lstrip_by narrow s)))"

text \<open>\<open>str.strip()\<close>.\<close>

definition strip :: "string \<Rightarrow> string" where
  "strip s = strip_by ascii_space s"

text \<open>\<open>s.split(c)\<close> for a one-character separator: never the empty list.\<close>

fun split_on :: "char \<Rightarrow> string \<Rightarrow> string list" where
  "split_on c [] = [[]]"
| "split_on c (x # xs) =
     (if x = c then [] # split_on c xs
      else (case split_on c xs of [] \<Rightarrow> [[x]] | w # ws \<Rightarrow> (x # w) # ws))"

text \<open>\<open>s.split(c, 1)\<close>: one piece when \<open>c\<close> does not occur, else the text before the first
  \<open>c\<close> and the text after it.\<close>

definition split_first :: "char \<Rightarrow> string \<Rightarrow> string list" where
  "split_first c s =
     (if c \<in> set s then [takeWhile (\<lambda>x. x \<noteq> c) s, tl (dropWhile (\<lambda>x. x \<noteq> c) s)] else [s])"

text \<open>\<open>sep.join(xs)\<close>.\<close>

fun join :: "string \<Rightarrow> string list \<Rightarrow> string" where
  "join sep [] = []"
| "join sep [x] = x"
| "join sep (x # y # ys) = x @ sep @ join sep (y # ys)"

text \<open>\<open>needle in hay\<close> on strings.\<close>

fun contains :: "string \<Rightarrow> string \<Rightarrow> bool" where
  "contains needle [] = (needle = [])"
| "contains needle (x # xs) = (starts_with needle (x # xs) \<or> contains needle xs)"

subsection \<open>Integers and text\<close>

definition is_digit :: "char \<Rightarrow> bool" where
  "is_digit c = (c \<in> set ''0123456789'')"

definition digit_val :: "char \<Rightarrow> nat" where
  "digit_val c = of_char c - 48"

text \<open>The digits of an integer literal: groups of digits separated by single underscores.
  The flag says whether the previous character was a digit.\<close>

fun int_digits :: "bool \<Rightarrow> nat \<Rightarrow> string \<Rightarrow> nat option" where
  "int_digits prev acc [] = (if prev then Some acc else None)"
| "int_digits prev acc (c # cs) =
     (if is_digit c then int_digits True (acc * 10 + digit_val c) cs
      else if c = CHR ''_'' \<and> prev then int_digits False acc cs
      else None)"

text \<open>The white space \<open>int()\<close> skips around the literal: \<open>0x1C\<close> to \<open>0x1F\<close> are not part of it.\<close>

definition int_space :: "char \<Rightarrow> bool" where
  "int_space c = (c \<in> set [CHR 0x09, CHR 0x0A, CHR 0x0B, CHR 0x0C, CHR 0x0D, CHR 0x20])"

text \<open>\<open>int(s)\<close> in base 10: \<open>None\<close> is \<open>ValueError\<close>. Decimal digits outside ASCII, which
  \<open>int\<close> also reads, are not in the model.\<close>

definition py_int :: "string \<Rightarrow> int option" where
  "py_int s =
     (case strip_by int_space s of
        [] \<Rightarrow> None
      | c # cs \<Rightarrow>
          if c = CHR ''-'' then map_option (\<lambda>n. - int n) (int_digits False 0 cs)
          else if c = CHR ''+'' then map_option int (int_digits False 0 cs)
          else map_option int (int_digits False 0 (c # cs)))"

function str_nat :: "nat \<Rightarrow> string" where
  "str_nat n =
     (if n < 10 then [''0123456789'' ! n] else str_nat (n div 10) @ [''0123456789'' ! (n mod 10)])"
  by pat_completeness auto
termination
  by (relation "measure id") auto

declare str_nat.simps [simp del]

text \<open>\<open>str(i)\<close>, as an f-string renders an integer.\<close>

definition str_int :: "int \<Rightarrow> string" where
  "str_int i = (if i < 0 then CHR ''-'' # str_nat (nat (- i)) else str_nat (nat i))"

subsection \<open>Dictionaries\<close>

text \<open>A \<open>dict\<close> keeps its keys in insertion order, and storing under a key that is present
  replaces the value where it stands.\<close>

type_synonym ('k, 'v) dict = "('k \<times> 'v) list"

fun dict_set :: "('k, 'v) dict \<Rightarrow> 'k \<Rightarrow> 'v \<Rightarrow> ('k, 'v) dict" where
  "dict_set [] k v = [(k, v)]"
| "dict_set ((k', v') # d) k v = (if k' = k then (k, v) # d else (k', v') # dict_set d k v)"

definition dict_get :: "('k, 'v) dict \<Rightarrow> 'k \<Rightarrow> 'v option" where
  "dict_get d k = map_of d k"

definition dict_has :: "('k, 'v) dict \<Rightarrow> 'k \<Rightarrow> bool" where
  "dict_has d k = (k \<in> set (map fst d))"

section \<open>The request parser\<close>

datatype error = ValueError

text \<open>The fields of \<open>HTTPRequest\<close>; \<open>req_method\<close> is the field that holds the HTTP verb.\<close>

record http_request =
  req_method :: string
  path :: string
  protocol :: string
  headers :: "(string, string) dict"
  body :: string
  host :: string
  port :: "int option"
  url :: string
  content_type :: string
  is_json :: bool
  is_form :: bool
  is_multipart :: bool

text \<open>\<open>HTTPRequest.__init__\<close>.\<close>

definition new_request :: http_request where
  "new_request =
     \<lparr>req_method = [], path = [], protocol = [], headers = [], body = [], host = [],
      port = None, url = [], content_type = [], is_json = False, is_form = False,
      is_multipart = False\<rparr>"

text \<open>The request line: three or more space-separated parts set verb, path and protocol.\<close>

definition parse_request_line :: "string \<Rightarrow> http_request \<Rightarrow> http_request" where
  "parse_request_line l r =
     (let parts = split_on CHR '' '' (strip l) in
      if length parts \<ge> 3
      then r\<lparr>req_method := parts ! 0, path := parts ! 1, protocol := parts ! 2\<rparr>
      else r)"

text \<open>The header loop over \<open>enumerate(lines[1:], 1)\<close>: returns the headers and \<open>body_start\<close>,
  which stays 0 when no empty line ends the headers.\<close>

fun parse_headers :: "string list \<Rightarrow> nat \<Rightarrow> (string, string) dict \<Rightarrow> (string, string) dict \<times> nat" where
  "parse_headers [] i h = (h, 0)"
| "parse_headers (l # ls) i h =
     (let line = strip l in
      if line = [] then (h, i + 1)
      else if CHR '':'' \<in> set line
      then (case split_first CHR '':'' line of
              [header_name, header_value] \<Rightarrow>
                parse_headers ls (i + 1) (dict_set h (strip header_name) (strip header_value))
            | _ \<Rightarrow> parse_headers ls (i + 1) h)
      else parse_headers ls (i + 1) h)"

text \<open>Host and URL. The conversion of the port is the one step of the parser that can
  raise.\<close>

definition build_url :: "http_request \<Rightarrow> http_request" where
  "build_url r =
     (let protocol' = (if port r = Some 443 then ''https'' else ''http'');
          port_str = (case port r of
                        None \<Rightarrow> []
                      | Some p \<Rightarrow> if p \<noteq> 0 \<and> p \<noteq> 80 \<and> p \<noteq> 443 then CHR '':'' # str_int p else [])
      in r\<lparr>url := protocol' @ ''://'' @ host r @ port_str @ path r\<rparr>)"

definition parse_host :: "http_request \<Rightarrow> error + http_request" where
  "parse_host r =
     (case dict_get (headers r) ''Host'' of
        None \<Rightarrow> Inr r
      | Some h \<Rightarrow>
          if CHR '':'' \<in> set h
          then (let host_parts = split_on CHR '':'' h in
                case py_int (host_parts ! 1) of
                  None \<Rightarrow> Inl ValueError
                | Some p \<Rightarrow> Inr (build_url (r\<lparr>host := host_parts ! 0, port := Some p\<rparr>)))
          else Inr (build_url (r\<lparr>host := h\<rparr>)))"

definition parse_body :: "string list \<Rightarrow> nat \<Rightarrow> http_request \<Rightarrow> http_request" where
  "parse_body lines body_start r =
     (if body_start > 0 \<and> body_start < length lines
      then r\<lparr>body := join [nl] (drop body_start lines)\<rparr>
      else r)"

definition parse_content_type :: "http_request \<Rightarrow> http_request" where
  "parse_content_type r =
     (case dict_get (headers r) ''Content-Type'' of
        None \<Rightarrow> r
      | Some ct \<Rightarrow>
          r\<lparr>content_type := ct,
            is_json := contains ''application/json'' ct,
            is_form := contains ''application/x-www-form-urlencoded'' ct,
            is_multipart := contains ''multipart/form-data'' ct\<rparr>)"

text \<open>\<open>HTTPRequest.parse_request\<close> on a fresh request object.\<close>

definition parse_request :: "string \<Rightarrow> error + http_request" where
  "parse_request request_text =
     (let lines = split_on nl (strip request_text);
          r1 = parse_request_line (hd lines) new_request;
          (h, body_start) = parse_headers (tl lines) 1 [];
          r2 = r1\<lparr>headers := h\<rparr>
      in case parse_host r2 of
           Inl e \<Rightarrow> Inl e
         | Inr r3 \<Rightarrow> Inr (parse_content_type (parse_body lines body_start r3)))"

section \<open>Library decoders used by the resolver\<close>

subsection \<open>Percent-decoding and \<open>urllib.parse.parse_qs\<close>\<close>

definition fffd :: string where
  "fffd = [CHR 0xEF, CHR 0xBF, CHR 0xBD]"

definition is_cont :: "char \<Rightarrow> bool" where
  "is_cont c = (0x80 \<le> (of_char c :: nat) \<and> (of_char c :: nat) < 0xC0)"

text \<open>The second byte of a three-byte and of a four-byte sequence: overlong forms,
  surrogates and code points above U+10FFFF are refused.\<close>

definition ok_second3 :: "char \<Rightarrow> char \<Rightarrow> bool" where
  "ok_second3 c c2 =
     (is_cont c2 \<and> \<not> (c = CHR 0xE0 \<and> (of_char c2 :: nat) < 0xA0)
                \<and> \<not> (c = CHR 0xED \<and> (of_char c2 :: nat) \<ge> 0xA0))"

definition ok_second4 :: "char \<Rightarrow> char \<Rightarrow> bool" where
  "ok_second4 c c2 =
     (is_cont c2 \<and> \<not> (c = CHR 0xF0 \<and> (of_char c2 :: nat) < 0x90)
                \<and> \<not> (c = CHR 0xF4 \<and> (of_char c2 :: nat) \<ge> 0x90))"

text \<open>\<open>bytes.decode('utf-8', 'replace')\<close>, with the result again in UTF-8: well-formed
  sequences are kept and every ill-formed part becomes U+FFFD.\<close>

fun utf8_replace :: "string \<Rightarrow> string" where
  "utf8_replace [] = []"
| "utf8_replace (c # cs) =
     (if (of_char c :: nat) < 0x80 then c # utf8_replace cs
      else if (of_char c :: nat) < 0xC2 then fffd @ utf8_replace cs
      else if (of_char c :: nat) < 0xE0 then
        (case cs of
           [] \<Rightarrow> fffd
         | c2 # r \<Rightarrow> if is_cont c2 then c # c2 # utf8_replace r else fffd @ utf8_replace cs)
      else if (of_char c :: nat) < 0xF0 then
        (case cs of
           [] \<Rightarrow> fffd
         | c2 # r \<Rightarrow>
             if \<not> ok_second3 c c2 then fffd @ utf8_replace cs
             else (case r of
                     [] \<Rightarrow> fffd
                   | c3 # r' \<Rightarrow>
                       if is_cont c3 then c # c2 # c3 # utf8_replace r'
                       else fffd @ utf8_replace r))
      else if (of_char c :: nat) < 0xF5 then
        (case cs of
           [] \<Rightarrow> fffd
         | c2 # r \<Rightarrow>
             if \<not> ok_second4 c c2 then fffd @ utf8_replace cs
             else (case r of
                     [] \<Rightarrow> fffd
                   | c3 # r' \<Rightarrow>
                       if \<not> is_cont c3 then fffd @ utf8_replace r
                       else (case r' of
                               [] \<Rightarrow> fffd
                             | c4 # r'' \<Rightarrow>
                                 if is_cont c4 then c # c2 # c3 # c4 # utf8_replace r''
                                 else fffd @ utf8_replace r')))
      else fffd @ utf8_replace cs)"

definition is_hex :: "char \<Rightarrow> bool" where
  "is_hex c = (c \<in> set ''0123456789ABCDEFabcdef'')"

definition hex_val :: "char \<Rightarrow> nat" where
  "hex_val c =
     (if is_digit c then of_char c - 48
      else if c \<in> set ''abcdef'' then of_char c - 87
      else of_char c - 55)"

text \<open>\<open>unquote\<close> on a string with a \<open>%\<close>: each maximal ASCII run has its \<open>%xx\<close> escapes
  turned into bytes and is decoded as UTF-8; the characters outside ASCII stay. The
  accumulator holds the bytes of the current run, reversed.\<close>

fun unquote_runs :: "string \<Rightarrow> string \<Rightarrow> string" where
  "unquote_runs acc [] = utf8_replace (rev acc)"
| "unquote_runs acc (c # cs) =
     (if (of_char c :: nat) \<ge> 0x80 then utf8_replace (rev acc) @ c # unquote_runs [] cs
      else if c = CHR ''%'' then
        (case cs of
           h1 # h2 # rest \<Rightarrow>
             if is_hex h1 \<and> is_hex h2
             then unquote_runs (char_of (16 * hex_val h1 + hex_val h2) # acc) rest
             else unquote_runs (c # acc) cs
         | _ \<Rightarrow> unquote_runs (c # acc) cs)
      else unquote_runs (c # acc) cs)"

text \<open>\<open>urllib.parse.unquote(s)\<close> with the default \<open>encoding='utf-8', errors='replace'\<close>.\<close>

definition unquote :: "string \<Rightarrow> string" where
  "unquote s = (if CHR ''%'' \<notin> set s then s else unquote_runs [] s)"

definition unquote_plus :: "string \<Rightarrow> string" where
  "unquote_plus s = unquote (map (\<lambda>c. if c = CHR ''+'' then CHR '' '' else c) s)"

text \<open>\<open>name_value.partition('=')\<close>: the name and the value, the value empty when there is
  no \<open>=\<close>.\<close>

definition partition_eq :: "string \<Rightarrow> string \<times> string" where
  "partition_eq nv = (takeWhile (\<lambda>x. x \<noteq> CHR ''='') nv, tl (dropWhile (\<lambda>x. x \<noteq> CHR ''='') nv))"

text \<open>\<open>parse_qsl(qs)\<close> with the defaults \<open>keep_blank_values=False\<close>,
  \<open>strict_parsing=False\<close>, \<open>separator='&'\<close>: empty fields and fields with an empty value are
  dropped.\<close>

definition parse_qsl :: "string \<Rightarrow> (string \<times> string) list" where
  "parse_qsl qs =
     (if qs = [] then []
      else concat (map (\<lambda>name_value.
             if name_value \<noteq> [] \<and> snd (partition_eq name_value) \<noteq> []
             then [(unquote_plus (fst (partition_eq name_value)),
                    unquote_plus (snd (partition_eq name_value)))]
             else [])
           (split_on CHR ''&'' qs)))"

fun collect_qs :: "(string \<times> string) list \<Rightarrow> (string, string list) dict \<Rightarrow> (string, string list) dict" where
  "collect_qs [] d = d"
| "collect_qs ((name, v) # pairs) d =
     collect_qs pairs
       (case dict_get d name of
          Some vs \<Rightarrow> dict_set d name (vs @ [v])
        | None \<Rightarrow> dict_set d name [v])"

definition parse_qs :: "string \<Rightarrow> (string, string list) dict" where
  "parse_qs qs = collect_qs (parse_qsl qs) []"

subsection \<open>\<open>json.loads\<close>\<close>

text \<open>The decoded document. The program only looks at the shape of the document and at
  the keys of its objects, so a number keeps the text of its literal. An object is a
  \<open>dict\<close>: a repeated key keeps its first position and its last value.\<close>

datatype json =
    JNull
  | JBool bool
  | JNumber string
  | JString string
  | JArray "json list"
  | JObject "(string \<times> json) list"

datatype token =
    TLBrace | TRBrace | TLBracket | TRBracket | TColon | TComma
  | TStr string
  | TScalar json

definition json_ws :: "char \<Rightarrow> bool" where
  "json_ws c = (c \<in> set [CHR '' '', CHR 0x09, CHR 0x0A, CHR 0x0D])"

text \<open>Four hexadecimal digits at the head of the input.\<close>

definition hex4 :: "string \<Rightarrow> nat option" where
  "hex4 s =
     (case s of
        a # b # c # d # _ \<Rightarrow>
          if is_hex a \<and> is_hex b \<and> is_hex c \<and> is_hex d
          then Some (((hex_val a * 16 + hex_val b) * 16 + hex_val c) * 16 + hex_val d)
          else None
      | _ \<Rightarrow> None)"

text \<open>The UTF-8 bytes of a code point; a lone surrogate, which a Python string can hold,
  is written with the three-byte pattern.\<close>

definition utf8_encode :: "nat \<Rightarrow> string" where
  "utf8_encode cp =
     (if cp < 0x80 then [char_of cp]
      else if cp < 0x800 then [char_of (0xC0 + cp div 64), char_of (0x80 + cp mod 64)]
      else if cp < 0x10000 then
        [char_of (0xE0 + cp div 4096), char_of (0x80 + cp div 64 mod 64), char_of (0x80 + cp mod 64)]
      else
        [char_of (0xF0 + cp div 262144), char_of (0x80 + cp div 4096 mod 64),
         char_of (0x80 + cp div 64 mod 64), char_of (0x80 + cp mod 64)])"

definition simple_escape :: "char \<Rightarrow> char option" where
  "simple_escape e =
     map_of [(CHR 0x22, CHR 0x22), (CHR 0x5C, CHR 0x5C), (CHR ''/'', CHR ''/''),
             (CHR ''b'', CHR 0x08), (CHR ''f'', CHR 0x0C), (CHR ''n'', CHR 0x0A),
             (CHR ''r'', CHR 0x0D), (CHR ''t'', CHR 0x09)] e"

text \<open>The scanner of a string literal, in strict mode, started after the opening quote.
  It returns the decoded text and the number of characters read, closing quote included.
  The accumulator holds the decoded text, reversed.\<close>

fun scan_string :: "string \<Rightarrow> nat \<Rightarrow> string \<Rightarrow> (string \<times> nat) option" where
  "scan_string acc k [] = None"
| "scan_string acc k (c # cs) =
     (if c = CHR 0x22 then Some (rev acc, k + 1)
      else if c = CHR 0x5C then
        (case cs of
           [] \<Rightarrow> None
         | e # es \<Rightarrow>
             if e = CHR ''u'' then
               (case hex4 es of
                  None \<Rightarrow> None
                | Some hi \<Rightarrow>
                    if 0xD800 \<le> hi \<and> hi < 0xDC00 \<and> starts_with [CHR 0x5C, CHR ''u''] (drop 4 es)
                    then (case hex4 (drop 6 es) of
                            None \<Rightarrow> None
                          | Some lo \<Rightarrow>
                              if 0xDC00 \<le> lo \<and> lo < 0xE000
                              then scan_string
                                     (rev (utf8_encode (0x10000 + (hi - 0xD800) * 1024 + (lo - 0xDC00))) @ acc)
                                     (k + 12) (drop 10 es)
                              else scan_string (rev (utf8_encode hi) @ acc) (k + 6) (drop 4 es))
                    else scan_string (rev (utf8_encode hi) @ acc) (k + 6) (drop 4 es))
             else (case simple_escape e of
                     None \<Rightarrow> None
                   | Some x \<Rightarrow> scan_string (x # acc) (k + 2) es))
      else if (of_char c :: nat) < 0x20 then None
      else scan_string (c # acc) (k + 1) cs)"

text \<open>The text matched at the head of the input by the number pattern
  \<open>(-?(?:0|[1-9]\d*))(\.\d+)?([eE][-+]?\d+)?\<close>; empty when there is no match.\<close>

definition scan_int_part :: "string \<Rightarrow> string" where
  "scan_int_part s =
     (case s of
        [] \<Rightarrow> []
      | c # cs \<Rightarrow> if c = CHR ''0'' then [c]
                  else if is_digit c then c # takeWhile is_digit cs
                  else [])"

definition scan_frac :: "string \<Rightarrow> string" where
  "scan_frac s =
     (case s of
        c # d # ds \<Rightarrow> if c = CHR ''.'' \<and> is_digit d then c # d # takeWhile is_digit ds else []
      | _ \<Rightarrow> [])"

definition scan_exp :: "string \<Rightarrow> string" where
  "scan_exp s =
     (case s of
        [] \<Rightarrow> []
      | e # r \<Rightarrow>
          if e = CHR ''e'' \<or> e = CHR ''E'' then
            (case r of
               [] \<Rightarrow> []
             | g # ds \<Rightarrow>
                 if g = CHR ''+'' \<or> g = CHR ''-'' then
                   (case takeWhile is_digit ds of [] \<Rightarrow> [] | d # ds' \<Rightarrow> e # g # d # ds')
                 else (case takeWhile is_digit r of [] \<Rightarrow> [] | d # ds' \<Rightarrow> e # d # ds'))
          else [])"

definition scan_number :: "string \<Rightarrow> string" where
  "scan_number s =
     (let sign = (if starts_with ''-'' s then ''-'' else []);
          ip = scan_int_part (drop (length sign) s)
      in if ip = [] then []
         else (let fp = scan_frac (drop (length sign + length ip) s);
                   ep = scan_exp (drop (length sign + length ip + length fp) s)
               in sign @ ip @ fp @ ep))"

text \<open>One lexical element at the head of the input, which does not start with white
  space, and the number of characters it takes beyond the first. The order of the tests
  is the scanner's.\<close>

definition scan_token :: "char \<Rightarrow> string \<Rightarrow> (token \<times> nat) option" where
  "scan_token c cs =
     (if c = CHR 0x22 then map_option (\<lambda>(s, k). (TStr s, k)) (scan_string [] 0 cs)
      else if c = CHR ''{'' then Some (TLBrace, 0)
      else if c = CHR ''['' then Some (TLBracket, 0)
      else if starts_with ''null'' (c # cs) then Some (TScalar JNull, 3)
      else if starts_with ''true'' (c # cs) then Some (TScalar (JBool True), 3)
      else if starts_with ''false'' (c # cs) then Some (TScalar (JBool False), 4)
      else if scan_number (c # cs) \<noteq> []
        then Some (TScalar (JNumber (scan_number (c # cs))), length (scan_number (c # cs)) - 1)
      else if starts_with ''NaN'' (c # cs) then Some (TScalar (JNumber ''NaN''), 2)
      else if starts_with ''Infinity'' (c # cs) then Some (TScalar (JNumber ''Infinity''), 7)
      else if starts_with ''-Infinity'' (c # cs) then Some (TScalar (JNumber ''-Infinity''), 8)
      else if c = CHR ''}'' then Some (TRBrace, 0)
      else if c = CHR '']'' then Some (TRBracket, 0)
      else if c = CHR '':'' then Some (TColon, 0)
      else if c = CHR '','' then Some (TComma, 0)
      else None)"

function tokenize :: "string \<Rightarrow> token list option" where
  "tokenize [] = Some []"
| "tokenize (c # cs) =
     (if json_ws c then tokenize cs
      else (case scan_token c cs of
              None \<Rightarrow> None
            | Some (t, k) \<Rightarrow> map_option (\<lambda>ts. t # ts) (tokenize (drop k cs))))"
  by pat_completeness auto
termination
  by (relation "measure length") auto

declare tokenize.simps [simp del]

text \<open>The grammar, as a machine over the tokens: a stack of the containers that are
  open, and what may come next.\<close>

datatype frame =
    FArr "json list"
  | FObj "(string, json) dict"
  | FKey "(string, json) dict" string

datatype expect =
    EValue | EFirst | EKeyFirst | EKey | EColon | ENext | EDone json

text \<open>A value is complete: it is the document, or the next element of the array on top
  of the stack, or the value of the pending key of the object on top.\<close>

definition attach :: "json \<Rightarrow> frame list \<Rightarrow> (expect \<times> frame list) option" where
  "attach v st =
     (case st of
        [] \<Rightarrow> Some (EDone v, [])
      | FArr xs # st' \<Rightarrow> Some (ENext, FArr (xs @ [v]) # st')
      | FKey d k # st' \<Rightarrow> Some (ENext, FObj (dict_set d k v) # st')
      | FObj d # st' \<Rightarrow> None)"

definition open_value :: "token \<Rightarrow> frame list \<Rightarrow> (expect \<times> frame list) option" where
  "open_value t st =
     (case t of
        TScalar v \<Rightarrow> attach v st
      | TStr s \<Rightarrow> attach (JString s) st
      | TLBracket \<Rightarrow> Some (EFirst, FArr [] # st)
      | TLBrace \<Rightarrow> Some (EKeyFirst, FObj [] # st)
      | _ \<Rightarrow> None)"

definition open_key :: "token \<Rightarrow> frame list \<Rightarrow> (expect \<times> frame list) option" where
  "open_key t st =
     (case (t, st) of
        (TStr k, FObj d # st') \<Rightarrow> Some (EColon, FKey d k # st')
      | _ \<Rightarrow> None)"

definition close_top :: "token \<Rightarrow> frame list \<Rightarrow> (expect \<times> frame list) option" where
  "close_top t st =
     (case (t, st) of
        (TRBracket, FArr xs # st') \<Rightarrow> attach (JArray xs) st'
      | (TRBrace, FObj d # st') \<Rightarrow> attach (JObject d) st'
      | _ \<Rightarrow> None)"

definition json_step :: "expect \<Rightarrow> frame list \<Rightarrow> token \<Rightarrow> (expect \<times> frame list) option" where
  "json_step e st t =
     (case e of
        EValue \<Rightarrow> open_value t st
      | EFirst \<Rightarrow> if t = TRBracket then close_top t st else open_value t st
      | EKeyFirst \<Rightarrow> if t = TRBrace then close_top t st else open_key t st
      | EKey \<Rightarrow> open_key t st
      | EColon \<Rightarrow> if t = TColon then Some (EValue, st) else None
      | ENext \<Rightarrow>
          if t = TComma
          then (case st of
                  FArr xs # _ \<Rightarrow> Some (EValue, st)
                | FObj d # _ \<Rightarrow> Some (EKey, st)
                | _ \<Rightarrow> None)
          else close_top t st
      | EDone v \<Rightarrow> None)"

fun parse_tokens :: "expect \<Rightarrow> frame list \<Rightarrow> token list \<Rightarrow> json option" where
  "parse_tokens e st [] = (case e of EDone v \<Rightarrow> Some v | _ \<Rightarrow> None)"
| "parse_tokens e st (t # ts) =
     (case json_step e st t of
        None \<Rightarrow> None
      | Some (e', st') \<Rightarrow> parse_tokens e' st' ts)"

text \<open>\<open>json.loads(s)\<close>: \<open>None\<close> is \<open>JSONDecodeError\<close>. A leading byte order mark is an
  error.\<close>

definition json_loads :: "string \<Rightarrow> json option" where
  "json_loads s =
     (if starts_with [CHR 0xEF, CHR 0xBB, CHR 0xBF] s then None
      else (case tokenize s of
              None \<Rightarrow> None
            | Some ts \<Rightarrow> parse_tokens EValue [] ts))"

section \<open>The resolver and the command builder\<close>

record fuzzer_generator =
  request :: http_request
  param_to_fuzz :: string
  wordlist :: string
  fuzz_location :: "string option"
  fuzz_position :: "string option"

text \<open>\<open>FuzzerGenerator.__init__\<close>.\<close>

definition new_fuzzer :: "http_request \<Rightarrow> string \<Rightarrow> string \<Rightarrow> fuzzer_generator" where
  "new_fuzzer http_request p w =
     \<lparr>request = http_request, param_to_fuzz = p, wordlist = w,
      fuzz_location = None, fuzz_position = None\<rparr>"

definition is_container :: "json \<Rightarrow> bool" where
  "is_container v = (case v of JObject _ \<Rightarrow> True | JArray _ \<Rightarrow> True | _ \<Rightarrow> False)"

text \<open>\<open>_find_json_param\<close>: \<open>Some p\<close> when the search returns true after storing \<open>p\<close> in
  \<open>fuzz_position\<close>, \<open>None\<close> when it returns false and stores nothing. The two loops are
  \<open>find_in_items\<close> over the entries of a dict and \<open>find_in_list\<close> over the elements of a
  list with their index.\<close>

fun find_json_param :: "json \<Rightarrow> string \<Rightarrow> string \<Rightarrow> string option"
  and find_in_items :: "(string \<times> json) list \<Rightarrow> string \<Rightarrow> string \<Rightarrow> string option"
  and find_in_list :: "json list \<Rightarrow> nat \<Rightarrow> string \<Rightarrow> string \<Rightarrow> string option"
where
  "find_json_param (JObject kvs) param pth = find_in_items kvs param pth"
| "find_json_param (JArray xs) param pth = find_in_list xs 0 param pth"
| "find_json_param JNull param pth = None"
| "find_json_param (JBool b) param pth = None"
| "find_json_param (JNumber n) param pth = None"
| "find_json_param (JString s) param pth = None"
| "find_in_items [] param pth = None"
| "find_in_items ((key, v) # rest) param pth =
     (let new_path = (if pth \<noteq> [] then pth @ ''.'' @ key else key) in
      if key = param then Some new_path
      else if is_container v
      then (case find_json_param v param new_path of
              Some p \<Rightarrow> Some p
            | None \<Rightarrow> find_in_items rest param pth)
      else find_in_items rest param pth)"
| "find_in_list [] i param pth = None"
| "find_in_list (item # rest) i param pth =
     (let new_path = pth @ ''['' @ str_nat i @ '']'' in
      if is_container item
      then (case find_json_param item param new_path of
              Some p \<Rightarrow> Some p
            | None \<Rightarrow> find_in_list rest (i + 1) param pth)
      else find_in_list rest (i + 1) param pth)"

text \<open>The cookie loop of the resolver: the name of a segment is what stands before its
  first \<open>=\<close>, trimmed.\<close>

fun find_cookie :: "string list \<Rightarrow> string \<Rightarrow> bool" where
  "find_cookie [] p = False"
| "find_cookie (cookie # cookies) p =
     (if CHR ''='' \<in> set cookie \<and> strip (hd (split_on CHR ''='' cookie)) = p then True
      else find_cookie cookies p)"

text \<open>The JSON search of the resolver: the body is decoded only for a JSON request with a
  body, and a body that does not decode counts as not containing the parameter.\<close>

definition find_in_json_body :: "http_request \<Rightarrow> string \<Rightarrow> string option" where
  "find_in_json_body r p =
     (if is_json r \<and> body r \<noteq> []
      then (case json_loads (body r) of
              None \<Rightarrow> None
            | Some json_body \<Rightarrow> find_json_param json_body p [])
      else None)"

text \<open>\<open>find_param_location\<close>: the returned flag and the generator with the location (and,
  for JSON, the position) stored.\<close>

definition find_param_location :: "fuzzer_generator \<Rightarrow> bool \<times> fuzzer_generator" where
  "find_param_location f =
     (let r = request f; p = param_to_fuzz f in
      if CHR ''?'' \<in> set (path r) \<and> dict_has (parse_qs (split_first CHR ''?'' (path r) ! 1)) p
      then (True, f\<lparr>fuzz_location := Some ''url_param''\<rparr>)
      else if is_form r \<and> body r \<noteq> [] \<and> dict_has (parse_qs (body r)) p
      then (True, f\<lparr>fuzz_location := Some ''body_param''\<rparr>)
      else (case find_in_json_body r p of
              Some pos \<Rightarrow> (True, f\<lparr>fuzz_location := Some ''json_field'', fuzz_position := Some pos\<rparr>)
            | None \<Rightarrow>
                if dict_has (headers r) p
                then (True, f\<lparr>fuzz_location := Some ''header''\<rparr>)
                else (case dict_get (headers r) ''Cookie'' of
                        None \<Rightarrow> (False, f)
                      | Some c \<Rightarrow>
                          if find_cookie (split_on CHR '';'' c) p
                          then (True, f\<lparr>fuzz_location := Some ''cookie''\<rparr>)
                          else (False, f))))"

text \<open>A segment of a query string or of a form body with the value of the parameter
  replaced by the marker.\<close>

definition fuzz_segment :: "string \<Rightarrow> string \<Rightarrow> string" where
  "fuzz_segment p param =
     (if CHR ''='' \<in> set param
      then (case split_first CHR ''='' param of
              [name, v] \<Rightarrow> if name = p then name @ ''=FUZZ'' else param
            | _ \<Rightarrow> param)
      else param)"

text \<open>A segment of the cookie header, rebuilt.\<close>

definition fuzz_cookie :: "string \<Rightarrow> string \<Rightarrow> string" where
  "fuzz_cookie p cookie =
     (if CHR ''='' \<in> set cookie
      then (case split_first CHR ''='' cookie of
              [cookie_name, cookie_value] \<Rightarrow>
                if strip cookie_name = p then strip cookie_name @ ''=FUZZ'' else strip cookie
            | _ \<Rightarrow> strip cookie)
      else strip cookie)"

text \<open>The URL flag. Unpacking \<open>path.split('?', 1)\<close> into two names raises when the path has
  no \<open>?\<close>.\<close>

definition url_flag :: "fuzzer_generator \<Rightarrow> error + string" where
  "url_flag f =
     (let r = request f in
      if fuzz_location f = Some ''url_param''
      then (case split_first CHR ''?'' (path r) of
              [path', query] \<Rightarrow>
                (let params = map (fuzz_segment (param_to_fuzz f)) (split_on CHR ''&'' query);
                     new_path = path' @ ''?'' @ join ''&'' params;
                     base_url = hd (split_first CHR ''?'' (url r))
                 in Inr (''-u \"'' @ base_url @ new_path @ ''\"''))
            | _ \<Rightarrow> Inl ValueError)
      else Inr (''-u \"'' @ url r @ ''\"''))"

definition header_flag :: "fuzzer_generator \<Rightarrow> string \<times> string \<Rightarrow> string" where
  "header_flag f nv =
     (case nv of (name, v) \<Rightarrow>
        if fuzz_location f = Some ''header'' \<and> name = param_to_fuzz f
        then ''-H \"'' @ name @ '': FUZZ\"''
        else if fuzz_location f = Some ''cookie'' \<and> name = ''Cookie''
        then ''-H \"Cookie: '' @
               join ''; '' (map (fuzz_cookie (param_to_fuzz f)) (split_on CHR '';'' v)) @ ''\"''
        else ''-H \"'' @ name @ '': '' @ v @ ''\"'')"

text \<open>An f-string renders \<open>None\<close> by its name.\<close>

definition str_opt :: "string option \<Rightarrow> string" where
  "str_opt x = (case x of None \<Rightarrow> ''None'' | Some s \<Rightarrow> s)"

text \<open>The body flags. For a form parameter the segments with the marker are computed and
  the flag is built from the body itself.\<close>

definition body_flags :: "fuzzer_generator \<Rightarrow> string list" where
  "body_flags f =
     (let r = request f in
      if body r \<noteq> [] \<and> req_method r \<in> set [''POST'', ''PUT'', ''PATCH'']
      then (if fuzz_location f = Some ''body_param'' \<and> is_form r
            then (let params = map (fuzz_segment (param_to_fuzz f)) (split_on CHR ''&'' (body r))
                  in [''-d \"'' @ body r @ ''\"''])
            else if fuzz_location f = Some ''json_field'' \<and> is_json r
            then [''-d '' @ [CHR 0x27] @ body r @ [CHR 0x27],
                  ''-mode pitchfork'',
                  ''-json '' @ [CHR 0x27] @ str_opt (fuzz_position f) @ '':FUZZ'' @ [CHR 0x27]]
            else [''-d '' @ [CHR 0x27] @ body r @ [CHR 0x27]])
      else [])"

text \<open>The list \<open>cmd_parts\<close> at the end of \<open>generate_ffuf_command\<close>.\<close>

definition cmd_parts :: "fuzzer_generator \<Rightarrow> error + string list" where
  "cmd_parts f =
     (if fuzz_location f = None \<or> fuzz_location f = Some [] then Inl ValueError
      else (case url_flag f of
              Inl e \<Rightarrow> Inl e
            | Inr u \<Rightarrow>
                Inr ([''ffuf -w '' @ wordlist f, ''-X '' @ req_method (request f), u]
                     @ map (header_flag f) (headers (request f))
                     @ body_flags f)))"

definition generate_ffuf_command :: "fuzzer_generator \<Rightarrow> error + string" where
  "generate_ffuf_command f =
     (case cmd_parts f of Inl e \<Rightarrow> Inl e | Inr parts \<Rightarrow> Inr (join '' '' parts))"

section \<open>The vocabulary of the specification\<close>

text \<open>The lines of the request text and the headers the parser reads from them.\<close>

definition request_lines :: "string \<Rightarrow> string list" where
  "request_lines t = split_on nl (strip t)"

definition request_headers :: "string \<Rightarrow> (string, string) dict" where
  "request_headers t = fst (parse_headers (tl (request_lines t)) 1 [])"

text \<open>The text of the port in a \<open>Host\<close> value: what stands between its first and its second
  colon.\<close>

definition port_text :: "string \<Rightarrow> string" where
  "port_text h = takeWhile (\<lambda>c. c \<noteq> CHR '':'') (tl (dropWhile (\<lambda>c. c \<noteq> CHR '':'') h))"

text \<open>The content type class as the specification words it: the first of the three
  substrings found in the header value decides, \<open>other\<close> when the header has none of them,
  \<open>none\<close> when there is no header.\<close>

datatype content_type_class = CtNone | CtJson | CtFormUrlencoded | CtMultipart | CtOther

definition contentTypeClass :: "(string, string) dict \<Rightarrow> content_type_class" where
  "contentTypeClass h =
     (case dict_get h ''Content-Type'' of
        None \<Rightarrow> CtNone
      | Some ct \<Rightarrow>
          if contains ''application/json'' ct then CtJson
          else if contains ''application/x-www-form-urlencoded'' ct then CtFormUrlencoded
          else if contains ''multipart/form-data'' ct then CtMultipart
          else CtOther)"

text \<open>The five locations. A query string holds a parameter when one of its \<open>&\<close>-separated
  fields has a value that is not empty and a name that decodes to the parameter.\<close>

definition qs_has :: "string \<Rightarrow> string \<Rightarrow> bool" where
  "qs_has qs p =
     (\<exists>nv \<in> set (split_on CHR ''&'' qs).
        snd (partition_eq nv) \<noteq> [] \<and> unquote_plus (fst (partition_eq nv)) = p)"

definition raw_query :: "http_request \<Rightarrow> string" where
  "raw_query r = tl (dropWhile (\<lambda>c. c \<noteq> CHR ''?'') (path r))"

definition in_url_query :: "http_request \<Rightarrow> string \<Rightarrow> bool" where
  "in_url_query r p = (CHR ''?'' \<in> set (path r) \<and> qs_has (raw_query r) p)"

definition in_form_body :: "http_request \<Rightarrow> string \<Rightarrow> bool" where
  "in_form_body r p = (is_form r \<and> body r \<noteq> [] \<and> qs_has (body r) p)"

text \<open>The keys of a document with their locators, in the order of a depth-first walk:
  the entries of an object in their order, each key before what its value holds, and the
  elements of an array by index.\<close>

fun json_paths :: "json \<Rightarrow> string \<Rightarrow> (string \<times> string) list"
  and item_paths :: "(string \<times> json) list \<Rightarrow> string \<Rightarrow> (string \<times> string) list"
  and elem_paths :: "json list \<Rightarrow> nat \<Rightarrow> string \<Rightarrow> (string \<times> string) list"
where
  "json_paths (JObject kvs) pth = item_paths kvs pth"
| "json_paths (JArray xs) pth = elem_paths xs 0 pth"
| "json_paths JNull pth = []"
| "json_paths (JBool b) pth = []"
| "json_paths (JNumber n) pth = []"
| "json_paths (JString s) pth = []"
| "item_paths [] pth = []"
| "item_paths ((k, v) # rest) pth =
     (k, if pth \<noteq> [] then pth @ ''.'' @ k else k)
       # json_paths v (if pth \<noteq> [] then pth @ ''.'' @ k else k) @ item_paths rest pth"
| "elem_paths [] i pth = []"
| "elem_paths (x # rest) i pth =
     json_paths x (pth @ ''['' @ str_nat i @ '']'') @ elem_paths rest (Suc i) pth"

text \<open>The locator of the first occurrence of a key in the JSON body of a request, when the
  request is JSON, has a body, and the body decodes.\<close>

definition json_body_path :: "http_request \<Rightarrow> string \<Rightarrow> string option" where
  "json_body_path r p =
     (if is_json r \<and> body r \<noteq> []
      then (case json_loads (body r) of
              None \<Rightarrow> None
            | Some j \<Rightarrow> map_of (json_paths j []) p)
      else None)"

definition in_json_body :: "http_request \<Rightarrow> string \<Rightarrow> bool" where
  "in_json_body r p = (json_body_path r p \<noteq> None)"

definition in_headers :: "http_request \<Rightarrow> string \<Rightarrow> bool" where
  "in_headers r p = (p \<in> fst ` set (headers r))"

definition cookie_has :: "string \<Rightarrow> string \<Rightarrow> bool" where
  "cookie_has v p =
     (\<exists>c \<in> set (split_on CHR '';'' v).
        CHR ''='' \<in> set c \<and> strip (takeWhile (\<lambda>x. x \<noteq> CHR ''='') c) = p)"

definition in_cookies :: "http_request \<Rightarrow> string \<Rightarrow> bool" where
  "in_cookies r p =
     (case map_of (headers r) ''Cookie'' of None \<Rightarrow> False | Some v \<Rightarrow> cookie_has v p)"

text \<open>The resolver of the specification: the first location that holds the parameter
  gives the tag.\<close>

definition resolve :: "http_request \<Rightarrow> string \<Rightarrow> string option" where
  "resolve r p =
     (if in_url_query r p then Some ''url_param''
      else if in_form_body r p then Some ''body_param''
      else if in_json_body r p then Some ''json_field''
      else if in_headers r p then Some ''header''
      else if in_cookies r p then Some ''cookie''
      else None)"

text \<open>A segment of the query as the specification rewrites it: a \<open>name=value\<close> segment
  whose name is the parameter becomes \<open>name=FUZZ\<close>, every other segment stays.\<close>

definition rewritten_segment :: "string \<Rightarrow> string \<Rightarrow> string" where
  "rewritten_segment p seg =
     (if CHR ''='' \<in> set seg \<and> takeWhile (\<lambda>c. c \<noteq> CHR ''='') seg = p
      then p @ ''=FUZZ'' else seg)"

text \<open>A segment of the cookie header as the specification rewrites it.\<close>

definition rewritten_cookie :: "string \<Rightarrow> string \<Rightarrow> string" where
  "rewritten_cookie p seg =
     (if CHR ''='' \<in> set seg \<and> strip (takeWhile (\<lambda>c. c \<noteq> CHR ''='') seg) = p
      then p @ ''=FUZZ'' else strip seg)"

section \<open>Facts about the string operations and the parser\<close>

lemma split_on_nonempty: "split_on c s \<noteq> []"
  by (induction s) (auto split: list.splits)

lemma hd_split_on: "hd (split_on c s) = takeWhile (\<lambda>x. x \<noteq> c) s"
  by (induction s) (auto split: list.splits simp: split_on_nonempty)

lemma split_on_nth0: "split_on c s ! 0 = takeWhile (\<lambda>x. x \<noteq> c) s"
  using hd_split_on[of c s] split_on_nonempty[of c s] by (simp add: hd_conv_nth)

lemma split_on_nth1: "c \<in> set s \<Longrightarrow> split_on c s ! Suc 0 = takeWhile (\<lambda>x. x \<noteq> c) (tl (dropWhile (\<lambda>x. x \<noteq> c) s))"
proof (induction s)
  case Nil then show ?case by simp
next
  case (Cons x xs)
  show ?case
  proof (cases "x = c")
    case True
    then show ?thesis by (simp add: hd_split_on[symmetric] hd_conv_nth split_on_nonempty)
  next
    case False
    with Cons.prems have "c \<in> set xs" by simp
    from Cons.IH[OF this] False show ?thesis
      using split_on_nonempty[of c xs] by (cases "split_on c xs") auto
  qed
qed

lemma build_url_fields [simp]:
  "headers (build_url r) = headers r" "req_method (build_url r) = req_method r"
  "path (build_url r) = path r" "protocol (build_url r) = protocol r"
  "port (build_url r) = port r" "host (build_url r) = host r"
  "body (build_url r) = body r" "is_json (build_url r) = is_json r"
  "is_form (build_url r) = is_form r" "is_multipart (build_url r) = is_multipart r"
  "content_type (build_url r) = content_type r"
  by (simp_all add: build_url_def Let_def)

lemma parse_body_fields [simp]:
  "headers (parse_body ls n r) = headers r" "req_method (parse_body ls n r) = req_method r"
  "path (parse_body ls n r) = path r" "protocol (parse_body ls n r) = protocol r"
  "port (parse_body ls n r) = port r" "host (parse_body ls n r) = host r"
  "url (parse_body ls n r) = url r" "is_json (parse_body ls n r) = is_json r"
  "is_form (parse_body ls n r) = is_form r" "is_multipart (parse_body ls n r) = is_multipart r"
  "content_type (parse_body ls n r) = content_type r"
  by (simp_all add: parse_body_def)

lemma parse_content_type_fields [simp]:
  "headers (parse_content_type r) = headers r" "req_method (parse_content_type r) = req_method r"
  "path (parse_content_type r) = path r" "protocol (parse_content_type r) = protocol r"
  "port (parse_content_type r) = port r" "host (parse_content_type r) = host r"
  "url (parse_content_type r) = url r" "body (parse_content_type r) = body r"
  by (simp_all add: parse_content_type_def split: option.splits)

lemma parse_request_line_fields [simp]:
  "headers (parse_request_line l r) = headers r" "port (parse_request_line l r) = port r"
  "host (parse_request_line l r) = host r" "url (parse_request_line l r) = url r"
  "body (parse_request_line l r) = body r" "is_json (parse_request_line l r) = is_json r"
  "is_form (parse_request_line l r) = is_form r"
  "is_multipart (parse_request_line l r) = is_multipart r"
  "content_type (parse_request_line l r) = content_type r"
  by (simp_all add: parse_request_line_def Let_def)

text \<open>The request after the request line and the headers, before the host is read.\<close>

lemma parse_request_unfold:
  "parse_request t =
     (case parse_host ((parse_request_line (hd (request_lines t)) new_request)\<lparr>headers := request_headers t\<rparr>) of
        Inl e \<Rightarrow> Inl e
      | Inr r3 \<Rightarrow> Inr (parse_content_type (parse_body (request_lines t) (snd (parse_headers (tl (request_lines t)) 1 [])) r3)))"
  unfolding parse_request_def request_lines_def request_headers_def Let_def case_prod_beta
  by (rule refl)

lemma parse_host_cases:
  "parse_host r =
     (case dict_get (headers r) ''Host'' of
        None \<Rightarrow> Inr r
      | Some h \<Rightarrow>
          if CHR '':'' \<in> set h
          then (case py_int (port_text h) of
                  None \<Rightarrow> Inl ValueError
                | Some p \<Rightarrow> Inr (build_url (r\<lparr>host := takeWhile (\<lambda>c. c \<noteq> CHR '':'') h, port := Some p\<rparr>)))
          else Inr (build_url (r\<lparr>host := h\<rparr>)))"
  by (simp add: parse_host_def Let_def split_on_nth0 split_on_nth1 port_text_def split: option.splits)

lemmas str_eval = strip_def strip_by_def lstrip_by.simps rstrip_rev.simps space_width_def
  space_width_rev_def ascii_space_def int_space_def starts_with_def wide_spaces_def nl_def


lemmas parse_eval = request_lines_def request_headers_def split_first_def dict_get_def
  parse_request_line_def new_request_def build_url_def parse_body_def parse_content_type_def
  port_text_def

lemma dict_has_get: "dict_has d k = (dict_get d k \<noteq> None)"
  by (simp add: dict_has_def dict_get_def map_of_eq_None_iff)

lemma parse_request_eval:
  assumes "request_lines t = l # ls" and "parse_headers ls 1 [] = (h, bs)"
  shows "parse_request t =
     (case parse_host ((parse_request_line l new_request)\<lparr>headers := h\<rparr>) of
        Inl e \<Rightarrow> Inl e
      | Inr r3 \<Rightarrow> Inr (parse_content_type (parse_body (l # ls) bs r3)))"
  using assms
  by (cases "parse_host ((parse_request_line l new_request)\<lparr>headers := h\<rparr>)")
     (simp_all add: parse_request_unfold request_headers_def)

lemma parse_host_keeps:
  assumes "parse_host r = Inr r'"
  shows "headers r' = headers r" "is_json r' = is_json r" "is_form r' = is_form r"
    "is_multipart r' = is_multipart r" "body r' = body r" "path r' = path r"
    "req_method r' = req_method r" "content_type r' = content_type r"
  using assms by (auto simp: parse_host_cases split: option.splits if_splits)

lemma parse_request_flags:
  assumes "parse_request t = Inr r"
  shows "is_json r = (case dict_get (headers r) ''Content-Type'' of
                        None \<Rightarrow> False | Some ct \<Rightarrow> contains ''application/json'' ct)"
    and "is_form r = (case dict_get (headers r) ''Content-Type'' of
                        None \<Rightarrow> False
                      | Some ct \<Rightarrow> contains ''application/x-www-form-urlencoded'' ct)"
    and "is_multipart r = (case dict_get (headers r) ''Content-Type'' of
                        None \<Rightarrow> False | Some ct \<Rightarrow> contains ''multipart/form-data'' ct)"
proof -
  let ?r2 = "(parse_request_line (hd (request_lines t)) new_request)\<lparr>headers := request_headers t\<rparr>"
  from assms obtain r3 where r3: "parse_host ?r2 = Inr r3"
    and r: "r = parse_content_type (parse_body (request_lines t)
                  (snd (parse_headers (tl (request_lines t)) 1 [])) r3)"
    by (auto simp: parse_request_unfold split: sum.splits)
  have f: "is_json r3 = False" "is_form r3 = False" "is_multipart r3 = False"
    using parse_host_keeps [OF r3] by (simp_all add: new_request_def)
  show "is_json r = (case dict_get (headers r) ''Content-Type'' of
                        None \<Rightarrow> False | Some ct \<Rightarrow> contains ''application/json'' ct)"
    and "is_form r = (case dict_get (headers r) ''Content-Type'' of
                        None \<Rightarrow> False
                      | Some ct \<Rightarrow> contains ''application/x-www-form-urlencoded'' ct)"
    and "is_multipart r = (case dict_get (headers r) ''Content-Type'' of
                        None \<Rightarrow> False | Some ct \<Rightarrow> contains ''multipart/form-data'' ct)"
    using f by (simp_all add: r parse_content_type_def parse_body_def split: option.splits)
qed

lemma dict_set_keys: "fst ` set (dict_set d k v) = insert k (fst ` set d)"
  by (induction d k v rule: dict_set.induct) auto

lemma dict_has_set: "dict_has (dict_set d k v) k' = (k' = k \<or> dict_has d k')"
  by (simp add: dict_has_def dict_set_keys)

lemma dict_has_collect_qs:
  "dict_has (collect_qs pairs d) k = (k \<in> fst ` set pairs \<or> dict_has d k)"
proof (induction pairs arbitrary: d)
  case Nil
  then show ?case by simp
next
  case (Cons nv pairs)
  obtain name v where nv: "nv = (name, v)" by (cases nv)
  show ?case
    by (cases "dict_get d name") (auto simp: nv Cons.IH dict_has_set)
qed

lemma parse_qsl_names: "(p \<in> fst ` set (parse_qsl qs)) = qs_has qs p"
proof (cases "qs = []")
  case True
  then show ?thesis by (simp add: parse_qsl_def qs_has_def partition_eq_def)
next
  case False
  then show ?thesis
    by (force simp: parse_qsl_def qs_has_def image_iff partition_eq_def split: if_splits)
qed

lemma dict_has_Nil: "dict_has [] k = False"
  by (simp add: dict_has_def)

lemma parse_qs_has: "dict_has (parse_qs qs) p = qs_has qs p"
  by (simp add: parse_qs_def dict_has_collect_qs parse_qsl_names dict_has_Nil)

lemma find_json_param_paths:
  "find_json_param j p pth = map_of (json_paths j pth) p"
  "find_in_items kvs p pth = map_of (item_paths kvs pth) p"
  "find_in_list xs i p pth = map_of (elem_paths xs i pth) p"
proof (induction j p pth and kvs p pth and xs i p pth
       rule: find_json_param_find_in_items_find_in_list.induct)
  case (8 key v rest param pth)
  then show ?case
    by (cases v) (auto simp: is_container_def Let_def map_add_def split: option.splits)
next
  case (10 item rest i param pth)
  then show ?case
    by (cases item) (auto simp: is_container_def Let_def map_add_def split: option.splits)
qed simp_all

lemma find_cookie_has:
  "find_cookie cs p =
     (\<exists>c \<in> set cs. CHR ''='' \<in> set c \<and> strip (takeWhile (\<lambda>x. x \<noteq> CHR ''='') c) = p)"
  by (induction cs) (auto simp: hd_split_on)

lemma split_first_second: "c \<in> set s \<Longrightarrow> split_first c s ! Suc 0 = tl (dropWhile (\<lambda>x. x \<noteq> c) s)"
  by (simp add: split_first_def)

lemma find_in_json_body_path: "find_in_json_body r p = json_body_path r p"
  by (simp add: find_in_json_body_def json_body_path_def find_json_param_paths split: option.splits)

lemma url_query_test:
  "(CHR ''?'' \<in> set (path r) \<and> dict_has (parse_qs (split_first CHR ''?'' (path r) ! 1)) p)
     = in_url_query r p"
  by (auto simp: split_first_second parse_qs_has raw_query_def in_url_query_def)

lemma form_body_test:
  "(is_form r \<and> body r \<noteq> [] \<and> dict_has (parse_qs (body r)) p) = in_form_body r p"
  by (simp add: parse_qs_has in_form_body_def)

lemma cookie_test:
  "(case dict_get (headers r) ''Cookie'' of
      None \<Rightarrow> (False, f)
    | Some c \<Rightarrow> if find_cookie (split_on CHR '';'' c) p then (True, g) else (False, f))
   = (if in_cookies r p then (True, g) else (False, f))"
  by (simp add: in_cookies_def cookie_has_def find_cookie_has dict_get_def split: option.splits)

lemma find_param_location_tests:
  "find_param_location f =
     (if in_url_query (request f) (param_to_fuzz f)
      then (True, f\<lparr>fuzz_location := Some ''url_param''\<rparr>)
      else if in_form_body (request f) (param_to_fuzz f)
      then (True, f\<lparr>fuzz_location := Some ''body_param''\<rparr>)
      else (case json_body_path (request f) (param_to_fuzz f) of
              Some pos \<Rightarrow> (True, f\<lparr>fuzz_location := Some ''json_field'', fuzz_position := Some pos\<rparr>)
            | None \<Rightarrow>
                if in_headers (request f) (param_to_fuzz f)
                then (True, f\<lparr>fuzz_location := Some ''header''\<rparr>)
                else if in_cookies (request f) (param_to_fuzz f)
                then (True, f\<lparr>fuzz_location := Some ''cookie''\<rparr>)
                else (False, f)))"
  unfolding find_param_location_def Let_def url_query_test form_body_test cookie_test
    find_in_json_body_path
  by (simp add: in_headers_def dict_has_def)

lemmas qs_eval = qs_has_def raw_query_def partition_eq_def unquote_plus_def unquote_def

lemmas resolve_eval = resolve_def in_url_query_def in_form_body_def in_json_body_def
  in_headers_def in_cookies_def cookie_has_def json_body_path_def

lemmas json_eval = json_loads_def tokenize.simps scan_token_def json_ws_def scan_number_def
  scan_int_part_def scan_frac_def scan_exp_def is_digit_def simple_escape_def
  json_step_def open_value_def open_key_def close_top_def attach_def starts_with_def

lemma fuzz_segment_rewritten: "fuzz_segment p seg = rewritten_segment p seg"
  by (simp add: fuzz_segment_def rewritten_segment_def split_first_def)

lemma fuzz_cookie_rewritten: "fuzz_cookie p seg = rewritten_cookie p seg"
  by (simp add: fuzz_cookie_def rewritten_cookie_def split_first_def)

lemma takeWhile_absent: "c \<notin> set s \<Longrightarrow> takeWhile (\<lambda>x. x \<noteq> c) s = s"
  by (induction s) auto

lemma hd_split_first: "hd (split_first c s) = takeWhile (\<lambda>x. x \<noteq> c) s"
  by (cases "c \<in> set s") (simp_all add: split_first_def takeWhile_absent)

lemma url_flag_url_param:
  assumes "fuzz_location f = Some ''url_param''" and "CHR ''?'' \<in> set (path (request f))"
  shows "url_flag f =
     Inr (''-u \"'' @ takeWhile (\<lambda>c. c \<noteq> CHR ''?'') (url (request f))
            @ takeWhile (\<lambda>c. c \<noteq> CHR ''?'') (path (request f)) @ ''?''
            @ join ''&'' (map (rewritten_segment (param_to_fuzz f))
                            (split_on CHR ''&'' (raw_query (request f))))
            @ ''\"'')"
proof -
  have m: "map (fuzz_segment (param_to_fuzz f)) = map (rewritten_segment (param_to_fuzz f))"
    by (simp add: fuzz_segment_rewritten [abs_def])
  have s: "split_first CHR ''?'' (path (request f)) =
      [takeWhile (\<lambda>c. c \<noteq> CHR ''?'') (path (request f)), raw_query (request f)]"
    using assms(2) by (simp add: split_first_def raw_query_def)
  show ?thesis
    using assms(1) by (simp add: url_flag_def Let_def s m hd_split_first)
qed

lemma url_flag_other:
  "fuzz_location f \<noteq> Some ''url_param'' \<Longrightarrow> url_flag f = Inr (''-u \"'' @ url (request f) @ ''\"'')"
  by (simp add: url_flag_def Let_def)

lemma cmd_parts_found:
  assumes "fuzz_location f = Some l" and "l \<noteq> []" and "url_flag f = Inr u"
  shows "cmd_parts f =
     Inr ([''ffuf -w '' @ wordlist f, ''-X '' @ req_method (request f), u]
          @ map (header_flag f) (headers (request f)) @ body_flags f)"
  using assms by (simp add: cmd_parts_def)

lemma found_url_param:
  assumes "find_param_location (new_fuzzer r p w) = (True, f')"
    and "fuzz_location f' = Some ''url_param''"
  shows "in_url_query r p" and "f' = (new_fuzzer r p w)\<lparr>fuzz_location := Some ''url_param''\<rparr>"
proof -
  have f: "request (new_fuzzer r p w) = r" "param_to_fuzz (new_fuzzer r p w) = p"
    by (simp_all add: new_fuzzer_def)
  show "in_url_query r p"
    using assms
    by (cases "json_body_path r p")
       (auto simp: find_param_location_tests f split: if_splits)
  then show "f' = (new_fuzzer r p w)\<lparr>fuzz_location := Some ''url_param''\<rparr>"
    using assms(1) by (simp add: find_param_location_tests f)
qed

lemma new_fuzzer_fields:
  "request (new_fuzzer r p w) = r" "param_to_fuzz (new_fuzzer r p w) = p"
  "wordlist (new_fuzzer r p w) = w" "fuzz_location (new_fuzzer r p w) = None"
  "fuzz_position (new_fuzzer r p w) = None"
  by (simp_all add: new_fuzzer_def)

lemma found_body_param:
  assumes "find_param_location (new_fuzzer r p w) = (True, f')"
    and "fuzz_location f' = Some ''body_param''"
  shows "in_form_body r p" and "f' = (new_fuzzer r p w)\<lparr>fuzz_location := Some ''body_param''\<rparr>"
proof -
  show b: "in_form_body r p"
    using assms
    by (cases "json_body_path r p")
       (auto simp: find_param_location_tests new_fuzzer_fields split: if_splits)
  have "\<not> in_url_query r p"
    using assms
    by (auto simp: find_param_location_tests new_fuzzer_fields split: if_splits)
  with b show "f' = (new_fuzzer r p w)\<lparr>fuzz_location := Some ''body_param''\<rparr>"
    using assms(1) by (simp add: find_param_location_tests new_fuzzer_fields)
qed

lemma header_flag_verbatim:
  assumes "fuzz_location f \<noteq> Some ''header''" and "fuzz_location f \<noteq> Some ''cookie''"
  shows "header_flag f nv = ''-H \"'' @ fst nv @ '': '' @ snd nv @ ''\"''"
  using assms by (cases nv) (simp add: header_flag_def)

lemma cmd_parts_plain_url:
  assumes "fuzz_location f = Some l" and "l \<noteq> []" and "l \<noteq> ''url_param''"
  shows "cmd_parts f =
     Inr ([''ffuf -w '' @ wordlist f, ''-X '' @ req_method (request f),
           ''-u \"'' @ url (request f) @ ''\"'']
          @ map (header_flag f) (headers (request f)) @ body_flags f)"
proof -
  have u: "url_flag f = Inr (''-u \"'' @ url (request f) @ ''\"'')"
    using assms(1,3) by (simp add: url_flag_other)
  show ?thesis
    by (rule cmd_parts_found [OF assms(1,2) u])
qed

lemma header_flag_cookie:
  assumes "fuzz_location f = Some ''cookie''"
  shows "header_flag f nv =
     (if fst nv = ''Cookie''
      then ''-H \"Cookie: '' @
             join ''; '' (map (rewritten_cookie (param_to_fuzz f)) (split_on CHR '';'' (snd nv)))
             @ ''\"''
      else ''-H \"'' @ fst nv @ '': '' @ snd nv @ ''\"'')"
  using assms by (cases nv) (simp add: header_flag_def fuzz_cookie_rewritten [abs_def])

lemma session_cookie_rewritten:
  "join ''; '' (map (rewritten_cookie ''session'') (split_on CHR '';'' ''session=abc123; theme=dark''))
     = ''session=FUZZ; theme=dark''"
  by (simp add: rewritten_cookie_def str_eval)

lemma session_cookie_has: "cookie_has ''session=abc123; theme=dark'' ''session''"
  by (simp add: cookie_has_def str_eval)

lemma in_map_image: "x \<in> set xs \<Longrightarrow> g x = y \<Longrightarrow> y \<in> set (map g xs)"
  by force

lemma contains_eval:
  "contains n [] = (n = [])"
  "contains n (x # xs) = (take (length n) (x # xs) = n \<or> contains n xs)"
  by (simp_all add: starts_with_def)

lemma user_id_body_decodes:
  "json_loads ''{\"user\":{\"id\":42}}'' = Some (JObject [(''user'', JObject [(''id'', JNumber ''42'')])])"
  by (simp add: json_eval)

lemma user_id_body_path:
  assumes "is_json r" and "body r = ''{\"user\":{\"id\":42}}''"
  shows "json_body_path r ''id'' = Some ''user.id''"
  using assms by (simp add: json_body_path_def user_id_body_decodes)

lemma user_id_body_no_form:
  assumes "body r = ''{\"user\":{\"id\":42}}''"
  shows "\<not> in_form_body r ''id''"
  using assms by (simp add: in_form_body_def qs_eval)

section \<open>The claims\<close>

subsection \<open>The parser\<close>







text \<open>
  Claim C3, as amended. The parser does not compute one class: it sets three flags, each
  true exactly when the \<open>Content-Type\<close> header is present and its value contains the
  substring of the flag, and independent of the other two. The flags agree with the class
  of the specification as far as its priority goes: the JSON flag always, the form flag
  when the JSON flag is off, the multipart flag when both are off; with all three off the
  class is \<open>other\<close> when the header is present and \<open>none\<close> when it is absent.
\<close>

theorem content_type_flags:
  "parse_request t = Inr r \<Longrightarrow>
     is_json r = (\<exists>ct. dict_get (headers r) ''Content-Type'' = Some ct
                       \<and> contains ''application/json'' ct)
   \<and> is_form r = (\<exists>ct. dict_get (headers r) ''Content-Type'' = Some ct
                       \<and> contains ''application/x-www-form-urlencoded'' ct)
   \<and> is_multipart r = (\<exists>ct. dict_get (headers r) ''Content-Type'' = Some ct
                       \<and> contains ''multipart/form-data'' ct)
   \<and> (is_json r \<longleftrightarrow> contentTypeClass (headers r) = CtJson)
   \<and> (\<not> is_json r \<longrightarrow> (is_form r \<longleftrightarrow> contentTypeClass (headers r) = CtFormUrlencoded))
   \<and> (\<not> is_json r \<and> \<not> is_form r \<longrightarrow>
         (is_multipart r \<longleftrightarrow> contentTypeClass (headers r) = CtMultipart))
   \<and> (\<not> is_json r \<and> \<not> is_form r \<and> \<not> is_multipart r \<longrightarrow>
         contentTypeClass (headers r) =
           (if dict_has (headers r) ''Content-Type'' then CtOther else CtNone))"
  by (simp add: parse_request_flags contentTypeClass_def dict_has_get split: option.splits)

theorem content_type_flags_witness:
  "parse_request ''POST /a HTTP/1.1\<newline>Content-Type: application/x-www-form-urlencoded; charset=utf-8\<newline>\<newline>a=1'' =
     Inr \<lparr>req_method = ''POST'', path = ''/a'', protocol = ''HTTP/1.1'',
          headers = [(''Content-Type'', ''application/x-www-form-urlencoded; charset=utf-8'')],
          body = ''a=1'', host = [], port = None, url = [],
          content_type = ''application/x-www-form-urlencoded; charset=utf-8'',
          is_json = False, is_form = True, is_multipart = False\<rparr>
   \<and> contentTypeClass [(''Content-Type'', ''application/x-www-form-urlencoded; charset=utf-8'')]
       = CtFormUrlencoded"
proof -
  let ?t = "''POST /a HTTP/1.1\<newline>Content-Type: application/x-www-form-urlencoded; charset=utf-8\<newline>\<newline>a=1''"
  let ?ct = "''application/x-www-form-urlencoded; charset=utf-8''"
  let ?r = "\<lparr>req_method = ''POST'', path = ''/a'', protocol = ''HTTP/1.1'',
          headers = [(''Content-Type'', ?ct)],
          body = ''a=1'', host = [], port = None, url = [],
          content_type = ?ct,
          is_json = False, is_form = True, is_multipart = False\<rparr>"
  have l: "request_lines ?t = [''POST /a HTTP/1.1'',
             ''Content-Type: application/x-www-form-urlencoded; charset=utf-8'', [], ''a=1'']"
    by (simp add: request_lines_def str_eval)
  have h: "parse_headers [''Content-Type: application/x-www-form-urlencoded; charset=utf-8'', [], ''a=1''] 1 []
             = ([(''Content-Type'', ?ct)], 3)"
    by (simp add: str_eval split_first_def)
  have c: "contains ''application/json'' ?ct = False"
    "contains ''application/x-www-form-urlencoded'' ?ct = True"
    "contains ''multipart/form-data'' ?ct = False"
    by (simp_all add: contains_eval del: contains.simps)
  have r: "parse_request ?t = Inr ?r"
    by (simp add: parse_request_eval [OF l h] parse_host_def c parse_eval str_eval
             del: contains.simps)
  from content_type_flags [OF r] r show ?thesis by simp
qed

text \<open>
  Claim C3 as stated fails: a header value that contains two of the substrings is not
  classified only as the one of highest priority. Here the JSON flag and the form flag are
  both set, where the class of the specification is JSON alone.
\<close>

theorem content_type_two_flags:
  "map_sum id is_json (parse_request ''POST /a HTTP/1.1\<newline>Content-Type: application/json, application/x-www-form-urlencoded\<newline>\<newline>a=1'') = Inr True
   \<and> map_sum id is_form (parse_request ''POST /a HTTP/1.1\<newline>Content-Type: application/json, application/x-www-form-urlencoded\<newline>\<newline>a=1'') = Inr True
   \<and> contentTypeClass [(''Content-Type'', ''application/json, application/x-www-form-urlencoded'')] = CtJson"
proof -
  let ?t = "''POST /a HTTP/1.1\<newline>Content-Type: application/json, application/x-www-form-urlencoded\<newline>\<newline>a=1''"
  let ?ct = "''application/json, application/x-www-form-urlencoded''"
  have l: "request_lines ?t = [''POST /a HTTP/1.1'',
             ''Content-Type: application/json, application/x-www-form-urlencoded'', [], ''a=1'']"
    by (simp add: request_lines_def str_eval)
  have h: "parse_headers [''Content-Type: application/json, application/x-www-form-urlencoded'', [], ''a=1''] 1 []
             = ([(''Content-Type'', ?ct)], 3)"
    by (simp add: str_eval split_first_def)
  have c: "contains ''application/json'' ?ct = True"
    "contains ''application/x-www-form-urlencoded'' ?ct = True"
    "contains ''multipart/form-data'' ?ct = False"
    by (simp_all add: contains_eval del: contains.simps)
  show ?thesis
    by (simp add: parse_request_eval [OF l h] parse_host_def c parse_eval str_eval
          contentTypeClass_def del: contains.simps)
qed

subsection \<open>The resolver\<close>







subsection \<open>The command builder\<close>

text \<open>
  Claim C4. When the resolver has found the parameter in the URL query, the third part of
  the command is the URL flag built as follows: the URL of the request up to its first
  \<open>?\<close>, then the path up to its first \<open>?\<close>, then \<open>?\<close>, then the segments of the raw query,
  split at \<open>&\<close>, kept in their order and joined with \<open>&\<close> again, where a segment
  \<open>name=value\<close> whose name is the parameter has become \<open>name=FUZZ\<close> and every other
  segment, also one without \<open>=\<close>, is as it was. For the path \<open>/search?q=test&id=5\<close> and
  the parameter \<open>id\<close> the rebuilt query is \<open>q=test&id=FUZZ\<close>.
\<close>

theorem url_param_command:
  assumes "find_param_location (new_fuzzer r p w) = (True, f')"
    and "fuzz_location f' = Some ''url_param''"
  shows "\<exists>rest. cmd_parts f' =
     Inr ([''ffuf -w '' @ w, ''-X '' @ req_method r,
           ''-u \"'' @ takeWhile (\<lambda>c. c \<noteq> CHR ''?'') (url r)
               @ takeWhile (\<lambda>c. c \<noteq> CHR ''?'') (path r) @ ''?''
               @ join ''&'' (map (rewritten_segment p) (split_on CHR ''&'' (raw_query r)))
               @ ''\"'']
          @ rest)"
proof -
  note f' = found_url_param [OF assms]
  have r: "request f' = r" "param_to_fuzz f' = p" "wordlist f' = w"
    by (simp_all add: f'(2) new_fuzzer_def)
  from f'(1) have q: "CHR ''?'' \<in> set (path (request f'))"
    by (simp add: in_url_query_def r)
  show ?thesis
    using cmd_parts_found [OF assms(2) _ url_flag_url_param [OF assms(2) q]]
    by (simp add: r)
qed

theorem url_param_command_witness:
  "parse_request ''GET /search?q=test&id=5 HTTP/1.1\<newline>Host: example.com'' =
     Inr \<lparr>req_method = ''GET'', path = ''/search?q=test&id=5'', protocol = ''HTTP/1.1'',
          headers = [(''Host'', ''example.com'')], body = [], host = ''example.com'',
          port = None, url = ''http://example.com/search?q=test&id=5'', content_type = [],
          is_json = False, is_form = False, is_multipart = False\<rparr>
   \<and> find_param_location (new_fuzzer \<lparr>req_method = ''GET'', path = ''/search?q=test&id=5'', protocol = ''HTTP/1.1'',
          headers = [(''Host'', ''example.com'')], body = [], host = ''example.com'',
          port = None, url = ''http://example.com/search?q=test&id=5'', content_type = [],
          is_json = False, is_form = False, is_multipart = False\<rparr> ''id'' ''w.txt'') =
     (True, \<lparr>request = \<lparr>req_method = ''GET'', path = ''/search?q=test&id=5'', protocol = ''HTTP/1.1'',
          headers = [(''Host'', ''example.com'')], body = [], host = ''example.com'',
          port = None, url = ''http://example.com/search?q=test&id=5'', content_type = [],
          is_json = False, is_form = False, is_multipart = False\<rparr>,
        param_to_fuzz = ''id'', wordlist = ''w.txt'',
        fuzz_location = Some ''url_param'', fuzz_position = None\<rparr>)
   \<and> (\<exists>rest. cmd_parts \<lparr>request = \<lparr>req_method = ''GET'', path = ''/search?q=test&id=5'', protocol = ''HTTP/1.1'',
          headers = [(''Host'', ''example.com'')], body = [], host = ''example.com'',
          port = None, url = ''http://example.com/search?q=test&id=5'', content_type = [],
          is_json = False, is_form = False, is_multipart = False\<rparr>,
        param_to_fuzz = ''id'', wordlist = ''w.txt'',
        fuzz_location = Some ''url_param'', fuzz_position = None\<rparr> =
         Inr ([''ffuf -w w.txt'', ''-X GET'',
               ''-u \"http://example.com/search/search?q=test&id=FUZZ\"''] @ rest))"
proof -
  let ?t = "''GET /search?q=test&id=5 HTTP/1.1\<newline>Host: example.com''"
  let ?r = "\<lparr>req_method = ''GET'', path = ''/search?q=test&id=5'', protocol = ''HTTP/1.1'',
          headers = [(''Host'', ''example.com'')], body = [], host = ''example.com'',
          port = None, url = ''http://example.com/search?q=test&id=5'', content_type = [],
          is_json = False, is_form = False, is_multipart = False\<rparr>"
  let ?f = "\<lparr>request = \<lparr>req_method = ''GET'', path = ''/search?q=test&id=5'', protocol = ''HTTP/1.1'',
          headers = [(''Host'', ''example.com'')], body = [], host = ''example.com'',
          port = None, url = ''http://example.com/search?q=test&id=5'', content_type = [],
          is_json = False, is_form = False, is_multipart = False\<rparr>,
        param_to_fuzz = ''id'', wordlist = ''w.txt'',
        fuzz_location = Some ''url_param'', fuzz_position = None\<rparr>"
  have l: "request_lines ?t = [''GET /search?q=test&id=5 HTTP/1.1'', ''Host: example.com'']"
    by (simp add: request_lines_def str_eval)
  have h: "parse_headers [''Host: example.com''] 1 [] = ([(''Host'', ''example.com'')], 0)"
    by (simp add: str_eval split_first_def)
  have r: "parse_request ?t = Inr ?r"
    by (simp add: parse_request_eval [OF l h] parse_host_def parse_eval str_eval)
  have a: "find_param_location (new_fuzzer ?r ''id'' ''w.txt'') = (True, ?f)"
    by (simp add: find_param_location_tests new_fuzzer_def resolve_eval qs_eval)
  have b: "fuzz_location ?f = Some ''url_param''"
    by simp
  have q: "join ''&'' (map (rewritten_segment ''id'') (split_on CHR ''&'' (raw_query ?r)))
             = ''q=test&id=FUZZ''"
    by (simp add: raw_query_def rewritten_segment_def)
  from url_param_command [OF a b] r a show ?thesis
    by (simp add: q)
qed

text \<open>
  Claim C7. When the resolver has found the parameter in the form body and the verb is
  POST, PUT or PATCH, the body is not empty and the command ends with one data flag that
  holds the body of the request as it is: the segments with the marker, which the builder
  computes, are not what it emits. The whole command is the word list flag, the verb
  flag, the URL flag with the URL of the request, one flag per header with its value as
  it is, and that data flag.
\<close>

theorem form_body_payload_unmodified:
  assumes "find_param_location (new_fuzzer r p w) = (True, f')"
    and "fuzz_location f' = Some ''body_param''"
    and "req_method r \<in> set [''POST'', ''PUT'', ''PATCH'']"
  shows "body r \<noteq> []
    \<and> body_flags f' = [''-d \"'' @ body r @ ''\"'']
    \<and> cmd_parts f' =
         Inr ([''ffuf -w '' @ w, ''-X '' @ req_method r, ''-u \"'' @ url r @ ''\"'']
              @ map (\<lambda>nv. ''-H \"'' @ fst nv @ '': '' @ snd nv @ ''\"'') (headers r)
              @ [''-d \"'' @ body r @ ''\"''])"
proof -
  note f' = found_body_param [OF assms(1,2)]
  have r: "request f' = r" "wordlist f' = w"
    by (simp_all add: f'(2) new_fuzzer_fields)
  from f'(1) have b: "body r \<noteq> []" "is_form r"
    by (simp_all add: in_form_body_def)
  have bf: "body_flags f' = [''-d \"'' @ body r @ ''\"'']"
    using assms(2,3) b by (simp add: body_flags_def r Let_def)
  have hf: "header_flag f' = (\<lambda>nv. ''-H \"'' @ fst nv @ '': '' @ snd nv @ ''\"'')"
    using assms(2) by (intro ext header_flag_verbatim) simp_all
  have "cmd_parts f' =
     Inr ([''ffuf -w '' @ wordlist f', ''-X '' @ req_method (request f'),
           ''-u \"'' @ url (request f') @ ''\"'']
          @ map (header_flag f') (headers (request f')) @ body_flags f')"
    by (rule cmd_parts_plain_url [OF assms(2)]) simp_all
  then have "cmd_parts f' =
         Inr ([''ffuf -w '' @ w, ''-X '' @ req_method r, ''-u \"'' @ url r @ ''\"'']
              @ map (\<lambda>nv. ''-H \"'' @ fst nv @ '': '' @ snd nv @ ''\"'') (headers r)
              @ [''-d \"'' @ body r @ ''\"''])"
    unfolding r bf hf .
  with b(1) bf show ?thesis by (intro conjI)
qed

theorem form_body_payload_unmodified_witness:
  "find_param_location
     (new_fuzzer \<lparr>req_method = ''POST'', path = ''/login'', protocol = ''HTTP/1.1'',
          headers = [(''Content-Type'', ''application/x-www-form-urlencoded'')],
          body = ''q=1&id=5'', host = [], port = None, url = [],
          content_type = ''application/x-www-form-urlencoded'',
          is_json = False, is_form = True, is_multipart = False\<rparr> ''id'' ''w.txt'')
   = (True,
      \<lparr>request = \<lparr>req_method = ''POST'', path = ''/login'', protocol = ''HTTP/1.1'',
          headers = [(''Content-Type'', ''application/x-www-form-urlencoded'')],
          body = ''q=1&id=5'', host = [], port = None, url = [],
          content_type = ''application/x-www-form-urlencoded'',
          is_json = False, is_form = True, is_multipart = False\<rparr>,
       param_to_fuzz = ''id'', wordlist = ''w.txt'',
       fuzz_location = Some ''body_param'', fuzz_position = None\<rparr>)
   \<and> join ''&'' (map (fuzz_segment ''id'') (split_on CHR ''&'' ''q=1&id=5'')) = ''q=1&id=FUZZ''
   \<and> body_flags
       \<lparr>request = \<lparr>req_method = ''POST'', path = ''/login'', protocol = ''HTTP/1.1'',
          headers = [(''Content-Type'', ''application/x-www-form-urlencoded'')],
          body = ''q=1&id=5'', host = [], port = None, url = [],
          content_type = ''application/x-www-form-urlencoded'',
          is_json = False, is_form = True, is_multipart = False\<rparr>,
       param_to_fuzz = ''id'', wordlist = ''w.txt'',
       fuzz_location = Some ''body_param'', fuzz_position = None\<rparr>
     = [''-d \"q=1&id=5\"'']"
proof -
  let ?r = "\<lparr>req_method = ''POST'', path = ''/login'', protocol = ''HTTP/1.1'',
          headers = [(''Content-Type'', ''application/x-www-form-urlencoded'')],
          body = ''q=1&id=5'', host = [], port = None, url = [],
          content_type = ''application/x-www-form-urlencoded'',
          is_json = False, is_form = True, is_multipart = False\<rparr>"
  let ?f = "\<lparr>request = ?r, param_to_fuzz = ''id'', wordlist = ''w.txt'',
       fuzz_location = Some ''body_param'', fuzz_position = None\<rparr>"
  have a: "find_param_location (new_fuzzer ?r ''id'' ''w.txt'') = (True, ?f)"
    by (simp add: find_param_location_tests new_fuzzer_def resolve_eval qs_eval)
  have b: "fuzz_location ?f = Some ''body_param''" by simp
  have c: "req_method ?r \<in> set [''POST'', ''PUT'', ''PATCH'']" by simp
  have s: "join ''&'' (map (fuzz_segment ''id'') (split_on CHR ''&'' ''q=1&id=5'')) = ''q=1&id=FUZZ''"
    by (simp add: fuzz_segment_def split_first_def)
  from form_body_payload_unmodified [OF a b c]
  have "body_flags ?f = [''-d \"'' @ body ?r @ ''\"'']" by (elim conjE)
  then have "body_flags ?f = [''-d \"q=1&id=5\"'']" by simp
  with a s show ?thesis by (intro conjI)
qed

text \<open>
  Claim C6. Take a request whose \<open>Cookie\<close> header is \<open>session=abc123; theme=dark\<close> and
  the parameter \<open>session\<close>, found neither in the URL query nor in the form body nor in
  the JSON body nor among the header names. The resolver returns the cookie tag. The
  command has one flag per header; every header named \<open>Cookie\<close> has its value split at
  \<open>;\<close>, each segment with a \<open>=\<close> whose trimmed name is the parameter replaced by
  \<open>session=FUZZ\<close>, each other segment trimmed, and the segments joined with \<open>; \<close>. For
  the header of the claim this gives the flag \<open>-H "Cookie: session=FUZZ; theme=dark"\<close>.
\<close>

theorem cookie_command:
  assumes "map_of (headers r) ''Cookie'' = Some ''session=abc123; theme=dark''"
    and "\<not> in_url_query r ''session''" and "\<not> in_form_body r ''session''"
    and "\<not> in_json_body r ''session''" and "\<not> in_headers r ''session''"
  shows "find_param_location (new_fuzzer r ''session'' w) =
           (True, (new_fuzzer r ''session'' w)\<lparr>fuzz_location := Some ''cookie''\<rparr>)
    \<and> cmd_parts ((new_fuzzer r ''session'' w)\<lparr>fuzz_location := Some ''cookie''\<rparr>) =
         Inr ([''ffuf -w '' @ w, ''-X '' @ req_method r, ''-u \"'' @ url r @ ''\"'']
              @ map (\<lambda>nv. if fst nv = ''Cookie''
                       then ''-H \"Cookie: '' @
                              join ''; '' (map (rewritten_cookie ''session'')
                                             (split_on CHR '';'' (snd nv))) @ ''\"''
                       else ''-H \"'' @ fst nv @ '': '' @ snd nv @ ''\"'')
                  (headers r)
              @ body_flags ((new_fuzzer r ''session'' w)\<lparr>fuzz_location := Some ''cookie''\<rparr>))
    \<and> ''-H \"Cookie: session=FUZZ; theme=dark\"''
        \<in> set (map (\<lambda>nv. if fst nv = ''Cookie''
                       then ''-H \"Cookie: '' @
                              join ''; '' (map (rewritten_cookie ''session'')
                                             (split_on CHR '';'' (snd nv))) @ ''\"''
                       else ''-H \"'' @ fst nv @ '': '' @ snd nv @ ''\"'')
                  (headers r))"
proof -
  let ?f = "(new_fuzzer r ''session'' w)\<lparr>fuzz_location := Some ''cookie''\<rparr>"
  let ?flag = "\<lambda>nv. if fst nv = ''Cookie''
                       then ''-H \"Cookie: '' @
                              join ''; '' (map (rewritten_cookie ''session'')
                                             (split_on CHR '';'' (snd nv))) @ ''\"''
                       else ''-H \"'' @ fst nv @ '': '' @ snd nv @ ''\"''"
  have c: "in_cookies r ''session''"
    using assms(1) by (simp add: in_cookies_def session_cookie_has)
  from assms(4) have j: "json_body_path r ''session'' = None"
    by (simp add: in_json_body_def)
  have a: "find_param_location (new_fuzzer r ''session'' w) = (True, ?f)"
    using assms(2,3,5) c j by (simp add: find_param_location_tests new_fuzzer_fields)
  have l: "fuzz_location ?f = Some ''cookie''" by simp
  have hf: "header_flag ?f = ?flag"
    by (rule ext) (simp add: header_flag_cookie [OF l] new_fuzzer_fields)
  have "cmd_parts ?f =
     Inr ([''ffuf -w '' @ wordlist ?f, ''-X '' @ req_method (request ?f),
           ''-u \"'' @ url (request ?f) @ ''\"'']
          @ map (header_flag ?f) (headers (request ?f)) @ body_flags ?f)"
    by (rule cmd_parts_plain_url [OF l]) simp_all
  then have p: "cmd_parts ?f =
     Inr ([''ffuf -w '' @ w, ''-X '' @ req_method r, ''-u \"'' @ url r @ ''\"'']
          @ map ?flag (headers r) @ body_flags ?f)"
    unfolding hf by (simp add: new_fuzzer_fields)
  from assms(1) have m: "(''Cookie'', ''session=abc123; theme=dark'') \<in> set (headers r)"
    by (rule map_of_SomeD)
  have e: "?flag (''Cookie'', ''session=abc123; theme=dark'') = ''-H \"Cookie: session=FUZZ; theme=dark\"''"
    by (simp add: rewritten_cookie_def str_eval)
  have s: "''-H \"Cookie: session=FUZZ; theme=dark\"'' \<in> set (map ?flag (headers r))"
    by (rule in_map_image [where g = ?flag, OF m e])
  from a p s show ?thesis by (intro conjI)
qed

theorem cookie_command_witness:
  "parse_request ''GET / HTTP/1.1\<newline>Host: example.com\<newline>Cookie: session=abc123; theme=dark'' =
     Inr \<lparr>req_method = ''GET'', path = ''/'', protocol = ''HTTP/1.1'',
          headers = [(''Host'', ''example.com''), (''Cookie'', ''session=abc123; theme=dark'')],
          body = [], host = ''example.com'', port = None, url = ''http://example.com/'',
          content_type = [], is_json = False, is_form = False, is_multipart = False\<rparr>
   \<and> find_param_location (new_fuzzer \<lparr>req_method = ''GET'', path = ''/'', protocol = ''HTTP/1.1'',
          headers = [(''Host'', ''example.com''), (''Cookie'', ''session=abc123; theme=dark'')],
          body = [], host = ''example.com'', port = None, url = ''http://example.com/'',
          content_type = [], is_json = False, is_form = False, is_multipart = False\<rparr> ''session'' ''w.txt'') =
     (True, \<lparr>request = \<lparr>req_method = ''GET'', path = ''/'', protocol = ''HTTP/1.1'',
          headers = [(''Host'', ''example.com''), (''Cookie'', ''session=abc123; theme=dark'')],
          body = [], host = ''example.com'', port = None, url = ''http://example.com/'',
          content_type = [], is_json = False, is_form = False, is_multipart = False\<rparr>,
        param_to_fuzz = ''session'', wordlist = ''w.txt'',
        fuzz_location = Some ''cookie'', fuzz_position = None\<rparr>)
   \<and> generate_ffuf_command \<lparr>request = \<lparr>req_method = ''GET'', path = ''/'', protocol = ''HTTP/1.1'',
          headers = [(''Host'', ''example.com''), (''Cookie'', ''session=abc123; theme=dark'')],
          body = [], host = ''example.com'', port = None, url = ''http://example.com/'',
          content_type = [], is_json = False, is_form = False, is_multipart = False\<rparr>,
        param_to_fuzz = ''session'', wordlist = ''w.txt'',
        fuzz_location = Some ''cookie'', fuzz_position = None\<rparr> =
     Inr ''ffuf -w w.txt -X GET -u \"http://example.com/\" -H \"Host: example.com\" -H \"Cookie: session=FUZZ; theme=dark\"''"
proof -
  let ?t = "''GET / HTTP/1.1\<newline>Host: example.com\<newline>Cookie: session=abc123; theme=dark''"
  let ?r = "\<lparr>req_method = ''GET'', path = ''/'', protocol = ''HTTP/1.1'',
          headers = [(''Host'', ''example.com''), (''Cookie'', ''session=abc123; theme=dark'')],
          body = [], host = ''example.com'', port = None, url = ''http://example.com/'',
          content_type = [], is_json = False, is_form = False, is_multipart = False\<rparr>"
  let ?f = "\<lparr>request = \<lparr>req_method = ''GET'', path = ''/'', protocol = ''HTTP/1.1'',
          headers = [(''Host'', ''example.com''), (''Cookie'', ''session=abc123; theme=dark'')],
          body = [], host = ''example.com'', port = None, url = ''http://example.com/'',
          content_type = [], is_json = False, is_form = False, is_multipart = False\<rparr>,
        param_to_fuzz = ''session'', wordlist = ''w.txt'',
        fuzz_location = Some ''cookie'', fuzz_position = None\<rparr>"
  have l: "request_lines ?t = [''GET / HTTP/1.1'', ''Host: example.com'',
                                ''Cookie: session=abc123; theme=dark'']"
    by (simp add: request_lines_def str_eval)
  have h: "parse_headers [''Host: example.com'', ''Cookie: session=abc123; theme=dark''] 1 []
             = ([(''Host'', ''example.com''), (''Cookie'', ''session=abc123; theme=dark'')], 0)"
    by (simp add: str_eval split_first_def)
  have r: "parse_request ?t = Inr ?r"
    by (simp add: parse_request_eval [OF l h] parse_host_def parse_eval str_eval)
  have a1: "map_of (headers ?r) ''Cookie'' = Some ''session=abc123; theme=dark''"
    by simp
  have n: "\<not> in_url_query ?r ''session''" "\<not> in_form_body ?r ''session''"
    "\<not> in_json_body ?r ''session''" "\<not> in_headers ?r ''session''"
    by (simp_all add: resolve_eval)
  have f: "(new_fuzzer ?r ''session'' ''w.txt'')\<lparr>fuzz_location := Some ''cookie''\<rparr> = ?f"
    by (simp add: new_fuzzer_def)
  have b: "body_flags ?f = []"
    by (simp add: body_flags_def)
  note c = cookie_command [OF a1 n, of "''w.txt''", unfolded f]
  from c have a: "find_param_location (new_fuzzer ?r ''session'' ''w.txt'') = (True, ?f)"
    by (elim conjE)
  from c have "cmd_parts ?f =
     Inr [''ffuf -w w.txt'', ''-X GET'', ''-u \"http://example.com/\"'',
          ''-H \"Host: example.com\"'', ''-H \"Cookie: session=FUZZ; theme=dark\"'']"
    by (simp add: b rewritten_cookie_def str_eval)
  then have g: "generate_ffuf_command ?f =
     Inr ''ffuf -w w.txt -X GET -u \"http://example.com/\" -H \"Host: example.com\" -H \"Cookie: session=FUZZ; theme=dark\"''"
    by (simp add: generate_ffuf_command_def)
  from r a g show ?thesis by (intro conjI)
qed

text \<open>
  Claim C5, as amended. Take a JSON request with the body \<open>{"user":{"id":42}}\<close> and the
  parameter \<open>id\<close>, not found in the URL query. The resolver returns the JSON field tag
  with the position \<open>user.id\<close>. The command is the word list flag, the verb flag, the URL
  flag, one flag per header with its value as it is, and then, only when the verb is
  POST, PUT or PATCH, the data flag with the body as it is, the pitchfork mode flag and
  the JSON flag \<open>user.id:FUZZ\<close>. For any other verb the command ends with the headers.
\<close>

theorem json_field_command:
  assumes "is_json r" and "body r = ''{\"user\":{\"id\":42}}''" and "\<not> in_url_query r ''id''"
  shows "find_param_location (new_fuzzer r ''id'' w) =
           (True, (new_fuzzer r ''id'' w)
                    \<lparr>fuzz_location := Some ''json_field'', fuzz_position := Some ''user.id''\<rparr>)
    \<and> cmd_parts ((new_fuzzer r ''id'' w)
                    \<lparr>fuzz_location := Some ''json_field'', fuzz_position := Some ''user.id''\<rparr>) =
         Inr ([''ffuf -w '' @ w, ''-X '' @ req_method r, ''-u \"'' @ url r @ ''\"'']
              @ map (\<lambda>nv. ''-H \"'' @ fst nv @ '': '' @ snd nv @ ''\"'') (headers r)
              @ (if req_method r \<in> set [''POST'', ''PUT'', ''PATCH'']
                 then [''-d '' @ [CHR 0x27] @ ''{\"user\":{\"id\":42}}'' @ [CHR 0x27],
                       ''-mode pitchfork'',
                       ''-json '' @ [CHR 0x27] @ ''user.id:FUZZ'' @ [CHR 0x27]]
                 else []))"
proof -
  let ?f = "(new_fuzzer r ''id'' w)
              \<lparr>fuzz_location := Some ''json_field'', fuzz_position := Some ''user.id''\<rparr>"
  have a: "find_param_location (new_fuzzer r ''id'' w) = (True, ?f)"
    using assms(3) user_id_body_no_form [OF assms(2)] user_id_body_path [OF assms(1,2)]
    by (simp add: find_param_location_tests new_fuzzer_fields)
  have l: "fuzz_location ?f = Some ''json_field''" by simp
  have hf: "header_flag ?f = (\<lambda>nv. ''-H \"'' @ fst nv @ '': '' @ snd nv @ ''\"'')"
    by (intro ext header_flag_verbatim) simp_all
  have bf: "body_flags ?f =
      (if req_method r \<in> set [''POST'', ''PUT'', ''PATCH'']
       then [''-d '' @ [CHR 0x27] @ ''{\"user\":{\"id\":42}}'' @ [CHR 0x27],
             ''-mode pitchfork'',
             ''-json '' @ [CHR 0x27] @ ''user.id:FUZZ'' @ [CHR 0x27]]
       else [])"
    using assms(1,2) by (simp add: body_flags_def Let_def new_fuzzer_fields str_opt_def)
  have "cmd_parts ?f =
     Inr ([''ffuf -w '' @ wordlist ?f, ''-X '' @ req_method (request ?f),
           ''-u \"'' @ url (request ?f) @ ''\"'']
          @ map (header_flag ?f) (headers (request ?f)) @ body_flags ?f)"
    by (rule cmd_parts_plain_url [OF l]) simp_all
  then have p: "cmd_parts ?f =
         Inr ([''ffuf -w '' @ w, ''-X '' @ req_method r, ''-u \"'' @ url r @ ''\"'']
              @ map (\<lambda>nv. ''-H \"'' @ fst nv @ '': '' @ snd nv @ ''\"'') (headers r)
              @ (if req_method r \<in> set [''POST'', ''PUT'', ''PATCH'']
                 then [''-d '' @ [CHR 0x27] @ ''{\"user\":{\"id\":42}}'' @ [CHR 0x27],
                       ''-mode pitchfork'',
                       ''-json '' @ [CHR 0x27] @ ''user.id:FUZZ'' @ [CHR 0x27]]
                 else []))"
    unfolding hf bf by (simp add: new_fuzzer_fields)
  from a p show ?thesis by (intro conjI)
qed

theorem json_field_command_witness:
  "parse_request ''POST /api HTTP/1.1\<newline>Host: example.com\<newline>Content-Type: application/json\<newline>\<newline>{\"user\":{\"id\":42}}'' =
     Inr \<lparr>req_method = ''POST'', path = ''/api'', protocol = ''HTTP/1.1'',
          headers = [(''Host'', ''example.com''), (''Content-Type'', ''application/json'')],
          body = ''{\"user\":{\"id\":42}}'', host = ''example.com'', port = None,
          url = ''http://example.com/api'', content_type = ''application/json'',
          is_json = True, is_form = False, is_multipart = False\<rparr>
   \<and> find_param_location (new_fuzzer \<lparr>req_method = ''POST'', path = ''/api'', protocol = ''HTTP/1.1'',
          headers = [(''Host'', ''example.com''), (''Content-Type'', ''application/json'')],
          body = ''{\"user\":{\"id\":42}}'', host = ''example.com'', port = None,
          url = ''http://example.com/api'', content_type = ''application/json'',
          is_json = True, is_form = False, is_multipart = False\<rparr> ''id'' ''w.txt'') =
     (True, \<lparr>request = \<lparr>req_method = ''POST'', path = ''/api'', protocol = ''HTTP/1.1'',
          headers = [(''Host'', ''example.com''), (''Content-Type'', ''application/json'')],
          body = ''{\"user\":{\"id\":42}}'', host = ''example.com'', port = None,
          url = ''http://example.com/api'', content_type = ''application/json'',
          is_json = True, is_form = False, is_multipart = False\<rparr>,
        param_to_fuzz = ''id'', wordlist = ''w.txt'',
        fuzz_location = Some ''json_field'', fuzz_position = Some ''user.id''\<rparr>)
   \<and> generate_ffuf_command \<lparr>request = \<lparr>req_method = ''POST'', path = ''/api'', protocol = ''HTTP/1.1'',
          headers = [(''Host'', ''example.com''), (''Content-Type'', ''application/json'')],
          body = ''{\"user\":{\"id\":42}}'', host = ''example.com'', port = None,
          url = ''http://example.com/api'', content_type = ''application/json'',
          is_json = True, is_form = False, is_multipart = False\<rparr>,
        param_to_fuzz = ''id'', wordlist = ''w.txt'',
        fuzz_location = Some ''json_field'', fuzz_position = Some ''user.id''\<rparr> =
     Inr (''ffuf -w w.txt -X POST -u \"http://example.com/api\" -H \"Host: example.com\" -H \"Content-Type: application/json\" -d ''
          @ [CHR 0x27] @ ''{\"user\":{\"id\":42}}'' @ [CHR 0x27] @ '' -mode pitchfork -json ''
          @ [CHR 0x27] @ ''user.id:FUZZ'' @ [CHR 0x27])"
proof -
  let ?t = "''POST /api HTTP/1.1\<newline>Host: example.com\<newline>Content-Type: application/json\<newline>\<newline>{\"user\":{\"id\":42}}''"
  let ?r = "\<lparr>req_method = ''POST'', path = ''/api'', protocol = ''HTTP/1.1'',
          headers = [(''Host'', ''example.com''), (''Content-Type'', ''application/json'')],
          body = ''{\"user\":{\"id\":42}}'', host = ''example.com'', port = None,
          url = ''http://example.com/api'', content_type = ''application/json'',
          is_json = True, is_form = False, is_multipart = False\<rparr>"
  let ?f = "\<lparr>request = \<lparr>req_method = ''POST'', path = ''/api'', protocol = ''HTTP/1.1'',
          headers = [(''Host'', ''example.com''), (''Content-Type'', ''application/json'')],
          body = ''{\"user\":{\"id\":42}}'', host = ''example.com'', port = None,
          url = ''http://example.com/api'', content_type = ''application/json'',
          is_json = True, is_form = False, is_multipart = False\<rparr>,
        param_to_fuzz = ''id'', wordlist = ''w.txt'',
        fuzz_location = Some ''json_field'', fuzz_position = Some ''user.id''\<rparr>"
  have l: "request_lines ?t = [''POST /api HTTP/1.1'', ''Host: example.com'',
             ''Content-Type: application/json'', [], ''{\"user\":{\"id\":42}}'']"
    by (simp add: request_lines_def str_eval)
  have h: "parse_headers [''Host: example.com'', ''Content-Type: application/json'', [],
                          ''{\"user\":{\"id\":42}}''] 1 []
             = ([(''Host'', ''example.com''), (''Content-Type'', ''application/json'')], 4)"
    by (simp add: str_eval split_first_def)
  have c: "contains ''application/json'' ''application/json'' = True"
    "contains ''application/x-www-form-urlencoded'' ''application/json'' = False"
    "contains ''multipart/form-data'' ''application/json'' = False"
    by (simp_all add: contains_eval del: contains.simps)
  have r: "parse_request ?t = Inr ?r"
    by (simp add: parse_request_eval [OF l h] parse_host_def c parse_eval str_eval
             del: contains.simps)
  have a1: "is_json ?r" and a2: "body ?r = ''{\"user\":{\"id\":42}}''"
    and a3: "\<not> in_url_query ?r ''id''"
    by (simp_all add: in_url_query_def)
  have f: "(new_fuzzer ?r ''id'' ''w.txt'')
             \<lparr>fuzz_location := Some ''json_field'', fuzz_position := Some ''user.id''\<rparr> = ?f"
    by (simp add: new_fuzzer_def)
  note j = json_field_command [OF a1 a2 a3, of "''w.txt''", unfolded f]
  from j have a: "find_param_location (new_fuzzer ?r ''id'' ''w.txt'') = (True, ?f)"
    by (elim conjE)
  from j have "cmd_parts ?f =
     Inr [''ffuf -w w.txt'', ''-X POST'', ''-u \"http://example.com/api\"'',
          ''-H \"Host: example.com\"'', ''-H \"Content-Type: application/json\"'',
          ''-d '' @ [CHR 0x27] @ ''{\"user\":{\"id\":42}}'' @ [CHR 0x27],
          ''-mode pitchfork'',
          ''-json '' @ [CHR 0x27] @ ''user.id:FUZZ'' @ [CHR 0x27]]"
    by simp
  then have g: "generate_ffuf_command ?f =
     Inr (''ffuf -w w.txt -X POST -u \"http://example.com/api\" -H \"Host: example.com\" -H \"Content-Type: application/json\" -d ''
          @ [CHR 0x27] @ ''{\"user\":{\"id\":42}}'' @ [CHR 0x27] @ '' -mode pitchfork -json ''
          @ [CHR 0x27] @ ''user.id:FUZZ'' @ [CHR 0x27])"
    by (simp add: generate_ffuf_command_def)
  from r a g show ?thesis by (intro conjI)
qed

text \<open>
  Claim C5 as stated fails for a request whose verb is not POST, PUT or PATCH: the
  resolver returns the JSON field with the position \<open>user.id\<close>, and the command has no
  data payload, no mode flag and no JSON flag.
\<close>

theorem json_field_get_no_flags:
  "parse_request ''GET /api HTTP/1.1\<newline>Host: example.com\<newline>Content-Type: application/json\<newline>\<newline>{\"user\":{\"id\":42}}'' =
     Inr \<lparr>req_method = ''GET'', path = ''/api'', protocol = ''HTTP/1.1'',
          headers = [(''Host'', ''example.com''), (''Content-Type'', ''application/json'')],
          body = ''{\"user\":{\"id\":42}}'', host = ''example.com'', port = None,
          url = ''http://example.com/api'', content_type = ''application/json'',
          is_json = True, is_form = False, is_multipart = False\<rparr>
   \<and> find_param_location (new_fuzzer \<lparr>req_method = ''GET'', path = ''/api'', protocol = ''HTTP/1.1'',
          headers = [(''Host'', ''example.com''), (''Content-Type'', ''application/json'')],
          body = ''{\"user\":{\"id\":42}}'', host = ''example.com'', port = None,
          url = ''http://example.com/api'', content_type = ''application/json'',
          is_json = True, is_form = False, is_multipart = False\<rparr> ''id'' ''w.txt'') =
     (True, \<lparr>request = \<lparr>req_method = ''GET'', path = ''/api'', protocol = ''HTTP/1.1'',
          headers = [(''Host'', ''example.com''), (''Content-Type'', ''application/json'')],
          body = ''{\"user\":{\"id\":42}}'', host = ''example.com'', port = None,
          url = ''http://example.com/api'', content_type = ''application/json'',
          is_json = True, is_form = False, is_multipart = False\<rparr>,
        param_to_fuzz = ''id'', wordlist = ''w.txt'',
        fuzz_location = Some ''json_field'', fuzz_position = Some ''user.id''\<rparr>)
   \<and> generate_ffuf_command \<lparr>request = \<lparr>req_method = ''GET'', path = ''/api'', protocol = ''HTTP/1.1'',
          headers = [(''Host'', ''example.com''), (''Content-Type'', ''application/json'')],
          body = ''{\"user\":{\"id\":42}}'', host = ''example.com'', port = None,
          url = ''http://example.com/api'', content_type = ''application/json'',
          is_json = True, is_form = False, is_multipart = False\<rparr>,
        param_to_fuzz = ''id'', wordlist = ''w.txt'',
        fuzz_location = Some ''json_field'', fuzz_position = Some ''user.id''\<rparr> =
     Inr ''ffuf -w w.txt -X GET -u \"http://example.com/api\" -H \"Host: example.com\" -H \"Content-Type: application/json\"''"
proof -
  let ?t = "''GET /api HTTP/1.1\<newline>Host: example.com\<newline>Content-Type: application/json\<newline>\<newline>{\"user\":{\"id\":42}}''"
  let ?r = "\<lparr>req_method = ''GET'', path = ''/api'', protocol = ''HTTP/1.1'',
          headers = [(''Host'', ''example.com''), (''Content-Type'', ''application/json'')],
          body = ''{\"user\":{\"id\":42}}'', host = ''example.com'', port = None,
          url = ''http://example.com/api'', content_type = ''application/json'',
          is_json = True, is_form = False, is_multipart = False\<rparr>"
  let ?f = "\<lparr>request = \<lparr>req_method = ''GET'', path = ''/api'', protocol = ''HTTP/1.1'',
          headers = [(''Host'', ''example.com''), (''Content-Type'', ''application/json'')],
          body = ''{\"user\":{\"id\":42}}'', host = ''example.com'', port = None,
          url = ''http://example.com/api'', content_type = ''application/json'',
          is_json = True, is_form = False, is_multipart = False\<rparr>,
        param_to_fuzz = ''id'', wordlist = ''w.txt'',
        fuzz_location = Some ''json_field'', fuzz_position = Some ''user.id''\<rparr>"
  have l: "request_lines ?t = [''GET /api HTTP/1.1'', ''Host: example.com'',
             ''Content-Type: application/json'', [], ''{\"user\":{\"id\":42}}'']"
    by (simp add: request_lines_def str_eval)
  have h: "parse_headers [''Host: example.com'', ''Content-Type: application/json'', [],
                          ''{\"user\":{\"id\":42}}''] 1 []
             = ([(''Host'', ''example.com''), (''Content-Type'', ''application/json'')], 4)"
    by (simp add: str_eval split_first_def)
  have c: "contains ''application/json'' ''application/json'' = True"
    "contains ''application/x-www-form-urlencoded'' ''application/json'' = False"
    "contains ''multipart/form-data'' ''application/json'' = False"
    by (simp_all add: contains_eval del: contains.simps)
  have r: "parse_request ?t = Inr ?r"
    by (simp add: parse_request_eval [OF l h] parse_host_def c parse_eval str_eval
             del: contains.simps)
  have a1: "is_json ?r" and a2: "body ?r = ''{\"user\":{\"id\":42}}''"
    and a3: "\<not> in_url_query ?r ''id''"
    by (simp_all add: in_url_query_def)
  have f: "(new_fuzzer ?r ''id'' ''w.txt'')
             \<lparr>fuzz_location := Some ''json_field'', fuzz_position := Some ''user.id''\<rparr> = ?f"
    by (simp add: new_fuzzer_def)
  have j: "json_body_path ?r ''id'' = Some ''user.id''"
    by (rule user_id_body_path [OF a1 a2])
  have nf: "\<not> in_form_body ?r ''id''"
    by (simp add: in_form_body_def)
  have a: "find_param_location (new_fuzzer ?r ''id'' ''w.txt'') = (True, ?f)"
    using a3 nf j by (simp add: find_param_location_tests new_fuzzer_def)
  have "cmd_parts ?f =
     Inr [''ffuf -w w.txt'', ''-X GET'', ''-u \"http://example.com/api\"'',
          ''-H \"Host: example.com\"'', ''-H \"Content-Type: application/json\"'']"
    by (simp add: cmd_parts_def url_flag_def header_flag_def body_flags_def)
  then have g: "generate_ffuf_command ?f =
     Inr ''ffuf -w w.txt -X GET -u \"http://example.com/api\" -H \"Host: example.com\" -H \"Content-Type: application/json\"''"
    by (simp add: generate_ffuf_command_def)
  from r a g show ?thesis by (intro conjI)
qed

end
